theory Spec2Isabelle
  imports Main
begin

section \<open>Python values and library tables\<close>

text \<open>
  A \<open>str\<close> is the list of its code points, so that every character Python can hold is
  there. \<open>lit\<close> writes an ASCII literal.
\<close>

type_synonym ustr = "nat list"

definition lit :: "string \<Rightarrow> ustr" where
  "lit s = map of_char s"

text \<open>A Python \<open>float\<close>. What the program does with one is a parameter of the model.\<close>

typedecl pyfloat

datatype py_error =
    ValueError | TypeError | KeyError | IndexError | FileNotFoundError | PermissionError
  | OSError | OverflowError | ReError | RuntimeError | UnicodeDecodeError | UnicodeEncodeError
  | JSONDecodeError | TimeoutExpired

text \<open>
  A \<open>datetime\<close>: microseconds since the epoch in UTC, and the offset of its time zone
  (\<open>None\<close> for a naive one, whose microseconds are then its wall clock).
\<close>

record datetime =
  micros :: int
  utcoffset :: "int option"

text \<open>
  What the program takes from Python's library and cannot be written out here:
  \<^item> \<open>uni_decimal\<close>: the decimal value of a code point of category Nd, as \<open>\d\<close> and
    \<open>int()\<close> use it;
  \<^item> \<open>uni_alnum\<close>: whether a code point is alphanumeric, as \<open>\w\<close> and \<open>\b\<close> use it;
  \<^item> \<open>re_other\<close>: \<open>re.compile(p).search\<close> for a pattern outside the fragment
    interpreted below, \<open>None\<close> when \<open>re.compile\<close> raises \<open>re.error\<close>;
  \<^item> \<open>float_str\<close>, \<open>float_falsy\<close>, \<open>float_eq_int\<close>, \<open>float_days\<close>: \<open>str(x)\<close>, \<open>not x\<close>,
    \<open>x == n\<close> and \<open>timedelta(days=x)\<close> in microseconds, for a float \<open>x\<close>;
  \<^item> \<open>fromisoformat\<close>: \<open>datetime.fromisoformat\<close>, \<open>None\<close> for its \<open>ValueError\<close>;
  \<^item> \<open>crlf\<close>: whether \<open>os.linesep\<close> is \<open>\r\n\<close>, as on Windows, rather than \<open>\n\<close>.
\<close>

record pylib =
  uni_decimal :: "nat \<Rightarrow> nat option"
  uni_alnum :: "nat \<Rightarrow> bool"
  re_other :: "ustr \<Rightarrow> (ustr \<Rightarrow> bool) option"
  float_str :: "pyfloat \<Rightarrow> ustr"
  float_falsy :: "pyfloat \<Rightarrow> bool"
  float_eq_int :: "pyfloat \<Rightarrow> int \<Rightarrow> bool"
  float_days :: "pyfloat \<Rightarrow> py_error + int"
  fromisoformat :: "ustr \<Rightarrow> datetime option"
  crlf :: bool

section \<open>Versions: parsing, formatting, the catalog (scheduler.py)\<close>

type_synonym version = "int \<times> int \<times> int"

text \<open>The character class \<open>\d\<close> of a \<open>str\<close> pattern: every Unicode decimal digit.\<close>

definition is_digit :: "pylib \<Rightarrow> nat \<Rightarrow> bool" where
  "is_digit py c = (uni_decimal py c \<noteq> None)"

definition digit_val :: "pylib \<Rightarrow> nat \<Rightarrow> nat" where
  "digit_val py c = (case uni_decimal py c of None \<Rightarrow> 0 | Some d \<Rightarrow> d)"

text \<open>
  \<open>int(s)\<close> for a string of decimal digits (the program applies it to groups of \<open>\d+\<close>
  only). It raises \<open>ValueError\<close> for more than 4300 digits, leading zeros counted: the
  limit of \<open>sys.get_int_max_str_digits()\<close>, which the program leaves at its default.
\<close>

definition int_max_str_digits :: nat where
  "int_max_str_digits = 4300"

definition py_int :: "pylib \<Rightarrow> ustr \<Rightarrow> py_error + int" where
  "py_int py s =
     (if length s > int_max_str_digits then Inl ValueError
      else Inr (int (foldl (\<lambda>acc c. 10 * acc + digit_val py c) 0 s)))"

text \<open>
  \<open>str(n)\<close>, as an f-string formats an integer. Every integer of the program comes out
  of \<open>int()\<close> or of \<open>json.loads\<close>, hence has at most 4300 digits, and \<open>str\<close> does not
  raise on it.
\<close>

definition digit_char :: "nat \<Rightarrow> nat" where
  "digit_char n = 48 + n"

fun digits_of :: "nat \<Rightarrow> ustr" where
  "digits_of n = (if n < 10 then [digit_char n] else digits_of (n div 10) @ [digit_char (n mod 10)])"

declare digits_of.simps [simp del]

definition py_str_int :: "int \<Rightarrow> ustr" where
  "py_str_int i = (if i < 0 then 45 # digits_of (nat (- i)) else digits_of (nat i))"

text \<open>
  \<open>VERSION_RE = ^(\d+)\.(\d+)(?:\.(\d+))?$\<close>, used with \<open>match\<close>. Without the
  MULTILINE flag \<open>$\<close> matches at the end of the string and also just before a newline
  that ends the string, so one final newline is tolerated. \<open>\d+\<close> is greedy and what
  follows it is never a digit, so no backtracking changes the outcome. The result is the
  three groups, the third being \<open>None\<close> when the optional part did not take part.
\<close>

definition strip_final_newline :: "ustr \<Rightarrow> ustr" where
  "strip_final_newline s = (if s \<noteq> [] \<and> last s = 10 then butlast s else s)"

definition VERSION_RE_match :: "pylib \<Rightarrow> ustr \<Rightarrow> (ustr \<times> ustr \<times> ustr option) option" where
  "VERSION_RE_match py name =
     (let s = strip_final_newline name;
          major = takeWhile (is_digit py) s; r1 = dropWhile (is_digit py) s
      in if major = [] then None
         else case r1 of
           [] \<Rightarrow> None
         | c1 # r2 \<Rightarrow>
             if c1 \<noteq> 46 then None
             else let minor = takeWhile (is_digit py) r2; r3 = dropWhile (is_digit py) r2
                  in if minor = [] then None
                     else case r3 of
                       [] \<Rightarrow> Some (major, minor, None)
                     | c2 # r4 \<Rightarrow>
                         if c2 \<noteq> 46 then None
                         else let patch = takeWhile (is_digit py) r4;
                                  r5 = dropWhile (is_digit py) r4
                              in if patch = [] \<or> r5 \<noteq> [] then None
                                 else Some (major, minor, Some patch))"

text \<open>\<open>parse_version\<close>: \<open>Inr None\<close> is the returned \<open>None\<close>, \<open>Inl\<close> an exception of \<open>int()\<close>.\<close>

definition parse_version :: "pylib \<Rightarrow> ustr \<Rightarrow> py_error + version option" where
  "parse_version py name =
     (case VERSION_RE_match py name of
        None \<Rightarrow> Inr None
      | Some (major, minor, patch) \<Rightarrow>
          (let patch' = (case patch of None \<Rightarrow> lit ''0'' | Some p \<Rightarrow> p)
           in case py_int py major of
                Inl e \<Rightarrow> Inl e
              | Inr a \<Rightarrow>
                  (case py_int py minor of
                     Inl e \<Rightarrow> Inl e
                   | Inr b \<Rightarrow>
                       (case py_int py patch' of
                          Inl e \<Rightarrow> Inl e
                        | Inr c \<Rightarrow> Inr (Some (a, b, c))))))"

definition version_to_string :: "version \<Rightarrow> ustr" where
  "version_to_string version =
     (case version of
        (a, b, c) \<Rightarrow> py_str_int a @ lit ''.'' @ py_str_int b @ lit ''.'' @ py_str_int c)"

text \<open>
  The catalog directory \<open>servers\<close>: \<open>None\<close> when \<open>os.listdir\<close> raises, otherwise its
  entries in the order \<open>os.listdir\<close> gives them, each with the answer of
  \<open>os.path.isdir\<close>. The loop stops at the first entry on which \<open>parse_version\<close> raises.
\<close>

type_synonym listing = "(ustr \<times> bool) list"

definition sentinel :: version where
  "sentinel = (0, 0, 0)"

fun catalog_items :: "pylib \<Rightarrow> listing \<Rightarrow> py_error + version list" where
  "catalog_items py [] = Inr []"
| "catalog_items py ((entry, isdir) # rest) =
     (if isdir then
        (case parse_version py entry of
           Inl e \<Rightarrow> Inl e
         | Inr None \<Rightarrow> catalog_items py rest
         | Inr (Some ver) \<Rightarrow>
             (case catalog_items py rest of
                Inl e \<Rightarrow> Inl e
              | Inr vers \<Rightarrow> Inr (ver # vers)))
      else catalog_items py rest)"

text \<open>
  The list starts with \<open>parse_version("0.0.0")\<close>. \<open>list.sort\<close> is stable, as \<open>sort_key\<close>
  is, and the key is \<open>x[1]\<close>, the minor component; on a \<open>None\<close> in the list the key
  would raise \<open>TypeError\<close>.
\<close>

definition get_versions :: "pylib \<Rightarrow> listing option \<Rightarrow> py_error + version list" where
  "get_versions py servers =
     (case servers of
        None \<Rightarrow> Inl FileNotFoundError
      | Some entries \<Rightarrow>
          (case parse_version py (lit ''0.0.0'') of
             Inl e \<Rightarrow> Inl e
           | Inr first \<Rightarrow>
               (case catalog_items py entries of
                  Inl e \<Rightarrow> Inl e
                | Inr items \<Rightarrow>
                    (case first of
                       None \<Rightarrow> Inl TypeError
                     | Some s \<Rightarrow> Inr (sort_key (\<lambda>x. fst (snd x)) (s # items))))))"

text \<open>
  What the theorems below ask of the tables, all of it true of Unicode: the ASCII digits
  have their values, no other ASCII character is a decimal digit, a decimal value is
  below 10, and the alphanumeric ASCII characters are the letters and the digits.
\<close>

definition ascii_digit :: "nat \<Rightarrow> bool" where
  "ascii_digit c = (48 \<le> c \<and> c \<le> 57)"

definition ascii_alnum :: "nat \<Rightarrow> bool" where
  "ascii_alnum c = (ascii_digit c \<or> (65 \<le> c \<and> c \<le> 90) \<or> (97 \<le> c \<and> c \<le> 122))"

definition unicode_ok :: "pylib \<Rightarrow> bool" where
  "unicode_ok py =
     ((\<forall>c. ascii_digit c \<longrightarrow> uni_decimal py c = Some (c - 48))
      \<and> (\<forall>c. c < 128 \<and> \<not> ascii_digit c \<longrightarrow> uni_decimal py c = None)
      \<and> (\<forall>c d. uni_decimal py c = Some d \<longrightarrow> d < 10)
      \<and> (\<forall>c. c < 128 \<longrightarrow> uni_alnum py c = ascii_alnum c))"

text \<open>
  A sample of the tables for the closed examples: ASCII, and the Arabic-Indic digits
  U+0660 to U+0669. No example uses another character, a float or a pattern outside the
  fragment.
\<close>

definition py0 :: pylib where
  "py0 =
     \<lparr> uni_decimal = (\<lambda>c. if 48 \<le> c \<and> c \<le> 57 then Some (c - 48)
                         else if 1632 \<le> c \<and> c \<le> 1641 then Some (c - 1632) else None),
       uni_alnum = (\<lambda>c. (48 \<le> c \<and> c \<le> 57) \<or> (65 \<le> c \<and> c \<le> 90) \<or> (97 \<le> c \<and> c \<le> 122)
                         \<or> (1632 \<le> c \<and> c \<le> 1641)),
       re_other = (\<lambda>p. None),
       float_str = (\<lambda>x. []),
       float_falsy = (\<lambda>x. False),
       float_eq_int = (\<lambda>x n. False),
       float_days = (\<lambda>x. Inl TypeError),
       fromisoformat = (\<lambda>s. None),
       crlf = False \<rparr>"

text \<open>
  Strings of decimal digits, the value of one, and its value written in ASCII digits
  without leading zeros.
\<close>

definition digit_string :: "pylib \<Rightarrow> ustr \<Rightarrow> bool" where
  "digit_string py s = (s \<noteq> [] \<and> list_all (is_digit py) s)"

definition digit_value :: "pylib \<Rightarrow> ustr \<Rightarrow> nat" where
  "digit_value py s = foldl (\<lambda>acc c. 10 * acc + digit_val py c) 0 s"

definition canonical :: "pylib \<Rightarrow> ustr \<Rightarrow> ustr" where
  "canonical py s =
     (let t = dropWhile (\<lambda>c. digit_val py c = 0) s
      in if t = [] then [48] else map (\<lambda>c. 48 + digit_val py c) t)"

text \<open>\<open>version_to_string(parse_version(name))\<close>, where \<open>parse_version\<close> returned a tuple.\<close>

definition parse_format :: "pylib \<Rightarrow> ustr \<Rightarrow> py_error + ustr option" where
  "parse_format py name =
     (case parse_version py name of
        Inl e \<Rightarrow> Inl e
      | Inr None \<Rightarrow> Inr None
      | Inr (Some v) \<Rightarrow> Inr (Some (version_to_string v)))"


text \<open>
  The choice of the target in \<open>upgrade_version\<close>: \<open>Inr None\<close> is the branch that prints
  "No later versions are available!" and returns. The current version is \<open>None\<close> when
  \<open>get_version\<close> returned \<open>None\<close>. \<open>versions.index\<close> is the first position holding an
  equal element; \<open>versions[0]\<close> raises on an empty list.
\<close>

definition index_of :: "'a list \<Rightarrow> 'a \<Rightarrow> nat" where
  "index_of xs x = length (takeWhile (\<lambda>y. y \<noteq> x) xs)"

definition first_version :: "version list \<Rightarrow> py_error + version option" where
  "first_version versions = (case versions of [] \<Rightarrow> Inl IndexError | v # _ \<Rightarrow> Inr (Some v))"

definition select_version :: "version option \<Rightarrow> version list \<Rightarrow> py_error + version option" where
  "select_version version versions =
     (case version of
        None \<Rightarrow> first_version versions
      | Some v \<Rightarrow>
          if v \<in> set versions then
            (let index = index_of versions v
             in if index + 1 < length versions then Inr (Some (versions ! (index + 1)))
                else Inr None)
          else first_version versions)"

text \<open>The order of versions by major, then minor, then patch.\<close>

definition version_le :: "version \<Rightarrow> version \<Rightarrow> bool" where
  "version_le x y =
     (case x of (a, b, c) \<Rightarrow> case y of (a', b', c') \<Rightarrow>
        a < a' \<or> (a = a' \<and> (b < b' \<or> (b = b' \<and> c \<le> c'))))"


section \<open>Text files\<close>

text \<open>
  A file does not exist, or cannot be opened or decoded (reading it raises the error),
  or holds a text, or holds a text and cannot be opened for writing (which raises the
  error). \<open>read_text\<close> and \<open>open('r')\<close> read in text mode, where \<open>\r\n\<close> and a lone \<open>\r\<close>
  arrive as \<open>\n\<close>. \<open>write_text\<close> opens the file for writing, which empties it, and then
  raises \<open>UnicodeEncodeError\<close> when the text holds a surrogate (a string decoded by
  \<open>json.loads\<close> may); every \<open>\n\<close> is written as \<open>os.linesep\<close>.
\<close>

datatype pfile = Absent | Unreadable py_error | Content ustr | ReadOnly ustr py_error

fun universal_newlines :: "ustr \<Rightarrow> ustr" where
  "universal_newlines [] = []"
| "universal_newlines [c] = (if c = 13 then [10] else [c])"
| "universal_newlines (c # d # s) =
     (if c = 13 \<and> d = 10 then 10 # universal_newlines s
      else if c = 13 then 10 # universal_newlines (d # s)
      else c # universal_newlines (d # s))"

definition read_text :: "pfile \<Rightarrow> py_error + ustr" where
  "read_text f =
     (case f of
        Absent \<Rightarrow> Inl FileNotFoundError
      | Unreadable e \<Rightarrow> Inl e
      | Content s \<Rightarrow> Inr (universal_newlines s)
      | ReadOnly s e \<Rightarrow> Inr (universal_newlines s))"

definition is_surrogate :: "nat \<Rightarrow> bool" where
  "is_surrogate c = (55296 \<le> c \<and> c \<le> 57343)"

definition os_newlines :: "pylib \<Rightarrow> ustr \<Rightarrow> ustr" where
  "os_newlines py s =
     (if crlf py then concat (map (\<lambda>c. if c = 10 then [13, 10] else [c]) s) else s)"

definition write_text :: "pylib \<Rightarrow> pfile \<Rightarrow> ustr \<Rightarrow> pfile \<times> py_error option" where
  "write_text py f s =
     (case f of
        ReadOnly t e \<Rightarrow> (f, Some e)
      | _ \<Rightarrow>
          if list_ex is_surrogate s then (Content [], Some UnicodeEncodeError)
          else (Content (os_newlines py s), None))"

text \<open>
  \<open>str.splitlines\<close> breaks the text at every line boundary: LF, CR, CR LF, VT, FF, FS,
  GS, RS, NEL (U+0085), LS (U+2028) and PS (U+2029); with \<open>keepends\<close> each line keeps its
  boundary.
\<close>

definition is_linebreak :: "nat \<Rightarrow> bool" where
  "is_linebreak c = (c \<in> set [10, 13, 11, 12, 28, 29, 30, 133, 8232, 8233])"

fun splitlines_from :: "ustr \<Rightarrow> ustr \<Rightarrow> ustr list" where
  "splitlines_from cur [] = (if cur = [] then [] else [cur])"
| "splitlines_from cur [c] = [cur @ [c]]"
| "splitlines_from cur (c # d # s) =
     (if c = 13 \<and> d = 10 then (cur @ [c, d]) # splitlines_from [] s
      else if is_linebreak c then (cur @ [c]) # splitlines_from [] (d # s)
      else splitlines_from (cur @ [c]) (d # s))"

definition chomp :: "ustr \<Rightarrow> ustr" where
  "chomp line =
     (if 2 \<le> length line \<and> drop (length line - 2) line = [13, 10]
      then take (length line - 2) line
      else if line \<noteq> [] \<and> is_linebreak (last line) then butlast line
      else line)"

definition splitlines :: "bool \<Rightarrow> ustr \<Rightarrow> ustr list" where
  "splitlines keepends s =
     (if keepends then splitlines_from [] s else map chomp (splitlines_from [] s))"

section \<open>The configuration overlay (scheduler.py)\<close>

text \<open>
  A document as \<open>json.loads\<close> returns it. A dict is the list of its items in order. The
  leaves are the values that are neither a dict nor a list.
\<close>

datatype leaf = LNull | LBool bool | LInt int | LFloat pyfloat | LStr ustr

datatype json = JLeaf leaf | JList "json list" | JDict "(ustr \<times> json) list"

text \<open>
  The dict \<open>result\<close>, in insertion order. Assigning to a key that is present replaces
  its value where it stands; a new key goes to the end.
\<close>

type_synonym flat = "(ustr \<times> leaf) list"

fun dict_set :: "flat \<Rightarrow> ustr \<Rightarrow> leaf \<Rightarrow> flat" where
  "dict_set [] k v = [(k, v)]"
| "dict_set ((k', v') # kvs) k v = (if k' = k then (k, v) # kvs else (k', v') # dict_set kvs k v)"

fun dict_get :: "flat \<Rightarrow> ustr \<Rightarrow> py_error + leaf" where
  "dict_get [] k = Inl KeyError"
| "dict_get ((k', v') # kvs) k = (if k' = k then Inr v' else dict_get kvs k)"

text \<open>\<open>_walk\<close>: the leaves of the document under dotted and indexed keys; \<open>prefix[:-1]\<close> is \<open>butlast\<close>.\<close>

fun walk :: "json \<Rightarrow> ustr \<Rightarrow> flat \<Rightarrow> flat"
  and walk_items :: "(ustr \<times> json) list \<Rightarrow> ustr \<Rightarrow> flat \<Rightarrow> flat"
  and walk_elems :: "json list \<Rightarrow> nat \<Rightarrow> ustr \<Rightarrow> flat \<Rightarrow> flat"
where
  "walk (JDict kvs) prefix result = walk_items kvs prefix result"
| "walk (JList vs) prefix result = walk_elems vs 0 prefix result"
| "walk (JLeaf v) prefix result = dict_set result (butlast prefix) v"
| "walk_items [] prefix result = result"
| "walk_items ((k, v) # kvs) prefix result =
     walk_items kvs prefix (walk v (prefix @ k @ lit ''.'') result)"
| "walk_elems [] i prefix result = result"
| "walk_elems (v # vs) i prefix result =
     walk_elems vs (Suc i) prefix
       (walk v (prefix @ lit ''['' @ py_str_int (int i) @ lit ''].'') result)"

definition flatten :: "json \<Rightarrow> flat" where
  "flatten data = walk data [] []"

text \<open>The two \<open>match\<close> statements of \<open>apply_properties\<close>; a literal pattern compares with \<open>==\<close>.\<close>

definition remap_difficulty :: "leaf \<Rightarrow> leaf" where
  "remap_difficulty v =
     (if v = LStr (lit ''peaceful'') then LInt 0
      else if v = LStr (lit ''easy'') then LInt 1
      else if v = LStr (lit ''normal'') then LInt 2
      else if v = LStr (lit ''hard'') then LInt 3
      else v)"

definition remap_gamemode :: "leaf \<Rightarrow> leaf" where
  "remap_gamemode v =
     (if v = LStr (lit ''survival'') then LInt 0
      else if v = LStr (lit ''creative'') then LInt 1
      else if v = LStr (lit ''adventure'') then LInt 2
      else v)"

text \<open>
  One pass of the loop body up to \<open>value = result[key]\<close>. The version is subscripted
  only after the key compared equal, so a version that is \<open>None\<close> raises for these two
  keys alone.
\<close>

definition remap :: "version option \<Rightarrow> ustr \<Rightarrow> leaf \<Rightarrow> py_error + leaf" where
  "remap version key v =
     (if key = lit ''difficulty'' then
        (case version of
           None \<Rightarrow> Inl TypeError
         | Some ver \<Rightarrow> Inr (if fst (snd ver) < 14 then remap_difficulty v else v))
      else if key = lit ''gamemode'' then
        (case version of
           None \<Rightarrow> Inl TypeError
         | Some ver \<Rightarrow> Inr (if fst (snd ver) < 14 then remap_gamemode v else v))
      else Inr v)"

text \<open>\<open>str(value).lower()\<close> for a bool, \<open>str(value)\<close> otherwise.\<close>

fun render :: "pylib \<Rightarrow> leaf \<Rightarrow> ustr" where
  "render py (LBool b) = (if b then lit ''true'' else lit ''false'')"
| "render py (LInt i) = py_str_int i"
| "render py (LFloat x) = float_str py x"
| "render py (LStr s) = s"
| "render py LNull = lit ''None''"

text \<open>The text that replaces the line of a key: \<open>f"{key}={value}"\<close>.\<close>

definition replacement_line :: "pylib \<Rightarrow> ustr \<Rightarrow> leaf \<Rightarrow> ustr" where
  "replacement_line py key v = key @ lit ''='' @ render py v"


subsection \<open>The pattern \<open>\bKEY\b\<close>\<close>

text \<open>
  \<open>apply_properties\<close> puts the key into the pattern as it is, so the key is read as a
  regular expression. The model interprets the keys made of ordinary characters and of
  \<open>.\<close>, which stands for any character but a newline. For a key with another special
  character the compiled pattern is \<open>re_other\<close> of the library. \<open>\w\<close> is an alphanumeric
  character or the underscore.
\<close>

datatype atom = Lit nat | AnyChar

definition is_word :: "pylib \<Rightarrow> nat \<Rightarrow> bool" where
  "is_word py c = (uni_alnum py c \<or> c = 95)"

definition regex_special :: "nat \<Rightarrow> bool" where
  "regex_special c = (c \<in> set [92, 46, 94, 36, 42, 43, 63, 123, 125, 91, 93, 124, 40, 41])"

fun compile_key :: "ustr \<Rightarrow> atom list option" where
  "compile_key [] = Some []"
| "compile_key (c # s) =
     (if c = 46 then map_option (\<lambda>ats. AnyChar # ats) (compile_key s)
      else if regex_special c then None
      else map_option (\<lambda>ats. Lit c # ats) (compile_key s))"

fun atom_matches :: "atom \<Rightarrow> nat \<Rightarrow> bool" where
  "atom_matches (Lit c) d = (c = d)"
| "atom_matches AnyChar d = (d \<noteq> 10)"

text \<open>\<open>\b\<close> between the character before a position and the one at it (\<open>None\<close>: no character).\<close>

definition word_opt :: "pylib \<Rightarrow> nat option \<Rightarrow> bool" where
  "word_opt py c = (case c of None \<Rightarrow> False | Some d \<Rightarrow> is_word py d)"

definition boundary :: "pylib \<Rightarrow> nat option \<Rightarrow> nat option \<Rightarrow> bool" where
  "boundary py prev nxt = (word_opt py prev \<noteq> word_opt py nxt)"

definition first_opt :: "ustr \<Rightarrow> nat option" where
  "first_opt s = (case s of [] \<Rightarrow> None | c # _ \<Rightarrow> Some c)"

text \<open>The atoms matched at the head of \<open>s\<close>, then \<open>\b\<close>: \<open>prev\<close> is the character before \<open>s\<close>.\<close>

fun match_atoms :: "pylib \<Rightarrow> atom list \<Rightarrow> nat option \<Rightarrow> ustr \<Rightarrow> bool" where
  "match_atoms py [] prev s = boundary py prev (first_opt s)"
| "match_atoms py (a # ats) prev [] = False"
| "match_atoms py (a # ats) prev (c # s) = (atom_matches a c \<and> match_atoms py ats (Some c) s)"

fun search_from :: "pylib \<Rightarrow> atom list \<Rightarrow> nat option \<Rightarrow> ustr \<Rightarrow> bool" where
  "search_from py ats prev [] = (boundary py prev None \<and> match_atoms py ats prev [])"
| "search_from py ats prev (c # s) =
     ((boundary py prev (Some c) \<and> match_atoms py ats prev (c # s))
      \<or> search_from py ats (Some c) s)"

definition search :: "pylib \<Rightarrow> atom list \<Rightarrow> ustr \<Rightarrow> bool" where
  "search py ats line = search_from py ats None line"

definition compile_word_pattern :: "pylib \<Rightarrow> ustr \<Rightarrow> (ustr \<Rightarrow> bool) option" where
  "compile_word_pattern py key =
     (case compile_key key of
        Some ats \<Rightarrow> Some (search py ats)
      | None \<Rightarrow> re_other py ([92, 98] @ key @ [92, 98]))"

subsection \<open>\<open>replace_line_in_file\<close> and \<open>apply_properties\<close>\<close>

definition endswith_newline :: "ustr \<Rightarrow> bool" where
  "endswith_newline line = (line \<noteq> [] \<and> last line = 10)"

text \<open>The \<open>for\<close> loop: the lines still to visit, the flag \<open>replaced\<close> and \<open>new_lines\<close>.\<close>

fun replace_loop ::
  "(ustr \<Rightarrow> bool) \<Rightarrow> ustr \<Rightarrow> bool \<Rightarrow> ustr list \<Rightarrow> ustr list \<Rightarrow> bool \<Rightarrow> ustr list
     \<Rightarrow> ustr list \<times> bool" where
  "replace_loop pattern replacement replace_first lines [] replaced new_lines =
     (new_lines, replaced)"
| "replace_loop pattern replacement replace_first lines (line # rest) replaced new_lines =
     (if \<not> replaced \<and> pattern line then
        (let new_lines' =
               new_lines @ [replacement @ (if endswith_newline line then [10] else [])]
         in if replace_first
            then (new_lines' @ drop (index_of lines line + 1) lines, True)
            else replace_loop pattern replacement replace_first lines rest True new_lines')
      else replace_loop pattern replacement replace_first lines rest replaced
             (new_lines @ [line]))"

text \<open>
  The pattern (\<open>None\<close> when \<open>re.compile\<close> raises) is compiled after the file was read;
  the file is written only when a line was replaced. The result is the file afterwards
  and what the call returns or raises.
\<close>

definition replace_line_in_file ::
  "pylib \<Rightarrow> pfile \<Rightarrow> (ustr \<Rightarrow> bool) option \<Rightarrow> ustr \<Rightarrow> bool
     \<Rightarrow> pfile \<times> (py_error + bool)" where
  "replace_line_in_file py f pattern replacement replace_first =
     (case read_text f of
        Inl e \<Rightarrow> (f, Inl e)
      | Inr s \<Rightarrow>
          (let lines = splitlines True s
           in case pattern of
                None \<Rightarrow> (f, Inl ReError)
              | Some p \<Rightarrow>
                  (case replace_loop p replacement replace_first lines lines False [] of
                     (new_lines, replaced) \<Rightarrow>
                       if replaced then
                         (case write_text py f (concat new_lines) of
                            (f', Some e) \<Rightarrow> (f', Inl e)
                          | (f', None) \<Rightarrow> (f', Inr True))
                       else (f, Inr False))))"

text \<open>
  The loop \<open>for key in result\<close>: the keys still to visit, the dict and the file
  \<open>current/server.properties\<close>. An exception leaves the file as the earlier keys made it.
\<close>

fun apply_loop ::
  "pylib \<Rightarrow> version option \<Rightarrow> ustr list \<Rightarrow> flat \<Rightarrow> pfile \<Rightarrow> pfile \<times> (py_error + flat)" where
  "apply_loop py version [] result f = (f, Inr result)"
| "apply_loop py version (key # keys) result f =
     (case dict_get result key of
        Inl e \<Rightarrow> (f, Inl e)
      | Inr v \<Rightarrow>
          (case remap version key v of
             Inl e \<Rightarrow> (f, Inl e)
           | Inr v' \<Rightarrow>
               (case replace_line_in_file py f (compile_word_pattern py key)
                       (replacement_line py key v') False of
                  (f', Inl e) \<Rightarrow> (f', Inl e)
                | (f', Inr _) \<Rightarrow> apply_loop py version keys (dict_set result key v') f')))"

text \<open>
  \<open>properties\<close> is what reading and decoding \<open>properties.json\<close> gives, \<open>f\<close> is
  \<open>current/server.properties\<close>.
\<close>

definition apply_properties ::
  "pylib \<Rightarrow> version option \<Rightarrow> py_error + json \<Rightarrow> pfile \<Rightarrow> pfile \<times> (py_error + flat)" where
  "apply_properties py version properties f =
     (case properties of
        Inl e \<Rightarrow> (f, Inl e)
      | Inr data \<Rightarrow>
          (let result = flatten data
           in apply_loop py version (map fst result) result f))"

subsection \<open>Word-boundary occurrences\<close>






section \<open>The version record and the migration (scheduler.py)\<close>

text \<open>What the program does to the outside is a list of effects, in order.\<close>

datatype effect =
    Print ustr
  | Touch ustr
  | WriteText ustr ustr
  | ProxyStop
  | ServerStop
  | Rename ustr ustr
  | MakeDirs ustr
  | CopyTree ustr ustr
  | CopyFile ustr ustr
  | RunJava "ustr list"
  | PropertiesFile pfile
  | ServerStart
  | ProxySetVersion ustr
  | ProxyStart
  | DiscordPost leaf ustr
  | PrintErr ustr

definition default_record :: ustr where
  "default_record = lit ''0.0.0'' @ [10] @ lit ''2000-01-01 00:00:00.000000+00:00''"

text \<open>\<open>create_version_file\<close>: \<open>exists()\<close> is true of a file that cannot be read.\<close>

definition create_version_file :: "pylib \<Rightarrow> pfile \<Rightarrow> pfile \<times> effect list" where
  "create_version_file py f =
     (case f of
        Absent \<Rightarrow>
          (Content (os_newlines py default_record),
           [Touch (lit ''current.txt''), WriteText (lit ''current.txt'') default_record,
            Print (lit ''Created current.txt to keep track of currently set version'')])
      | _ \<Rightarrow> (f, []))"

text \<open>
  \<open>version_str, ts_str = f.read().splitlines()\<close> raises \<open>ValueError\<close> unless there are
  exactly two lines. \<open>get_version\<close> returns what \<open>parse_version\<close> returns, \<open>None\<close> included,
  and does not look at the second line.
\<close>

definition read_record :: "pfile \<Rightarrow> py_error + ustr \<times> ustr" where
  "read_record f =
     (case read_text f of
        Inl e \<Rightarrow> Inl e
      | Inr s \<Rightarrow>
          (case splitlines False s of
             [version_str, ts_str] \<Rightarrow> Inr (version_str, ts_str)
           | _ \<Rightarrow> Inl ValueError))"

definition get_version ::
  "pylib \<Rightarrow> pfile \<Rightarrow> pfile \<times> effect list \<times> (py_error + version option)" where
  "get_version py f =
     (case create_version_file py f of
        (f', effs) \<Rightarrow>
          (f', effs,
           case read_record f' of
             Inl e \<Rightarrow> Inl e
           | Inr (version_str, ts_str) \<Rightarrow> parse_version py version_str))"

definition get_update_time ::
  "pylib \<Rightarrow> pfile \<Rightarrow> pfile \<times> effect list \<times> (py_error + datetime)" where
  "get_update_time py f =
     (case create_version_file py f of
        (f', effs) \<Rightarrow>
          (f', effs,
           case read_record f' of
             Inl e \<Rightarrow> Inl e
           | Inr (version_str, ts_str) \<Rightarrow>
               (case fromisoformat py ts_str of
                  None \<Rightarrow> Inl ValueError
                | Some dt \<Rightarrow> Inr dt)))"

text \<open>\<open>get_settings\<close>: the argument is what reading and decoding \<open>settings.json\<close> gives.\<close>

definition get_settings :: "py_error + json \<Rightarrow> py_error + flat" where
  "get_settings settings_json =
     (case settings_json of Inl e \<Rightarrow> Inl e | Inr data \<Rightarrow> Inr (flatten data))"

text \<open>\<open>str(value)\<close> of a leaf, as an f-string formats it.\<close>

fun py_str :: "pylib \<Rightarrow> leaf \<Rightarrow> ustr" where
  "py_str py (LBool b) = (if b then lit ''True'' else lit ''False'')"
| "py_str py (LInt i) = py_str_int i"
| "py_str py (LFloat x) = float_str py x"
| "py_str py (LStr s) = s"
| "py_str py LNull = lit ''None''"

text \<open>\<open>not value\<close> for a leaf.\<close>

fun falsy :: "pylib \<Rightarrow> leaf \<Rightarrow> bool" where
  "falsy py (LBool b) = (\<not> b)"
| "falsy py (LInt i) = (i = 0)"
| "falsy py (LFloat x) = float_falsy py x"
| "falsy py (LStr s) = (s = [])"
| "falsy py LNull = True"

text \<open>
  What the environment answers to the calls of the migration: how \<open>os.rename\<close> and
  \<open>subprocess.run\<close> end, how \<open>requests.post\<close> followed by \<open>raise_for_status\<close> ends, and
  for every other call the exception it raises, if any. \<open>copytree_ok\<close> is false when
  \<open>shutil.copytree\<close> raises anything, which the bare \<open>except\<close> turns into a message.
\<close>

datatype rename_outcome =
  RenameOk | RenamePermissionError | RenameFileNotFound | RenameOSError ustr

datatype run_outcome = RunTimeoutExpired | RunExited | RunRaised py_error

datatype post_outcome = PostOk | PostRequestException ustr | PostRaised py_error

record world =
  current_txt :: pfile
  servers :: "listing option"
  settings_json :: "py_error + json"
  properties_json :: "py_error + json"
  proxy_stop_error :: "py_error option"
  server_stop_error :: "py_error option"
  rename_current :: rename_outcome
  makedirs_error :: "py_error option"
  copytree_ok :: bool
  copy_jar :: "py_error option"
  eula_exists :: bool
  eula_touch_error :: "py_error option"
  eula_write_error :: "py_error option"
  java_run :: run_outcome
  server_properties :: pfile
  utc_now_str :: ustr
  record_write_error :: "py_error option"
  server_start_error :: "py_error option"
  proxy_start_error :: "py_error option"
  discord_post :: post_outcome

text \<open>
  A run is the effects it had and the exception that ended it, if one did. \<open>then_do\<close>
  puts effects in front of the rest of a run; \<open>call\<close> is a call that either raises,
  which ends the run there, or has its effect and is followed by the rest; \<open>call_if\<close> is
  a call under an \<open>if\<close>.
\<close>

type_synonym run = "effect list \<times> py_error option"

definition then_do :: "effect list \<Rightarrow> run \<Rightarrow> run" where
  "then_do effs rest = (effs @ fst rest, snd rest)"

definition call :: "py_error option \<Rightarrow> effect \<Rightarrow> run \<Rightarrow> run" where
  "call err eff rest = (case err of Some e \<Rightarrow> ([], Some e) | None \<Rightarrow> then_do [eff] rest)"

definition call_if :: "bool \<Rightarrow> py_error option \<Rightarrow> effect \<Rightarrow> run \<Rightarrow> run" where
  "call_if b err eff rest = (if b then call err eff rest else rest)"

text \<open>
  \<open>discord_message\<close> reads the settings again. A \<open>RequestException\<close> is caught and
  reported on \<open>stderr\<close>.
\<close>

definition discord_message :: "pylib \<Rightarrow> world \<Rightarrow> ustr \<Rightarrow> run" where
  "discord_message py w message =
     (case get_settings (settings_json w) of
        Inl e \<Rightarrow> ([], Some e)
      | Inr settings \<Rightarrow>
          (case dict_get settings (lit ''discord_webhook_url'') of
             Inl e \<Rightarrow> ([], Some e)
           | Inr webhook_url \<Rightarrow>
               if falsy py webhook_url then ([], None)
               else (case discord_post w of
                       PostOk \<Rightarrow> ([DiscordPost webhook_url message], None)
                     | PostRequestException exc \<Rightarrow>
                         ([DiscordPost webhook_url message,
                           PrintErr (lit ''Failed to send Discord message: '' @ exc)], None)
                     | PostRaised e \<Rightarrow> ([], Some e))))"

text \<open>\<open>upgrade_version\<close> from \<open>apply_properties(version)\<close> on.\<close>

definition finish_upgrade :: "pylib \<Rightarrow> world \<Rightarrow> bool \<Rightarrow> bool \<Rightarrow> version \<Rightarrow> run" where
  "finish_upgrade py w server proxy version =
     (let vs = version_to_string version
      in case apply_properties py (Some version) (properties_json w) (server_properties w) of
           (f', Inl e) \<Rightarrow> ([PropertiesFile f'], Some e)
         | (f', Inr _) \<Rightarrow>
             then_do [PropertiesFile f', Print (lit ''Applied server properties'')]
               (call (record_write_error w)
                  (WriteText (lit ''current.txt'') (vs @ [10] @ utc_now_str w))
                  (then_do [Print (lit ''Set current version as '' @ vs @ lit ''!'')]
                     (call_if server (server_start_error w) ServerStart
                        (call_if proxy None (ProxySetVersion vs)
                           (call_if proxy (proxy_start_error w) ProxyStart
                              (discord_message py w
                                 (lit ''Updated server to version '' @ vs @ lit ''!''))))))))"

text \<open>\<open>upgrade_version\<close> from \<open>subprocess.run\<close> on; the two settings are read first.\<close>

definition generate_files :: "pylib \<Rightarrow> world \<Rightarrow> bool \<Rightarrow> bool \<Rightarrow> flat \<Rightarrow> version \<Rightarrow> run" where
  "generate_files py w server proxy settings version =
     (case dict_get settings (lit ''java-Xmx'') of
        Inl e \<Rightarrow> ([], Some e)
      | Inr xmx \<Rightarrow>
          (case dict_get settings (lit ''java-Xms'') of
             Inl e \<Rightarrow> ([], Some e)
           | Inr xms \<Rightarrow>
               (let cmd = [lit ''java'', lit ''-Xmx'' @ py_str py xmx, lit ''-Xms'' @ py_str py xms,
                           lit ''-jar'', lit ''server.jar'', lit ''nogui'']
                in case java_run w of
                     RunRaised e \<Rightarrow> ([], Some e)
                   | RunTimeoutExpired \<Rightarrow>
                       then_do [RunJava cmd, Print (lit ''Configuration files created'')]
                         (finish_upgrade py w server proxy version)
                   | RunExited \<Rightarrow>
                       then_do [RunJava cmd] (finish_upgrade py w server proxy version))))"

text \<open>\<open>upgrade_version\<close> from \<open>os.makedirs\<close> on.\<close>

definition setup_server :: "pylib \<Rightarrow> world \<Rightarrow> bool \<Rightarrow> bool \<Rightarrow> flat \<Rightarrow> version \<Rightarrow> run" where
  "setup_server py w server proxy settings version =
     (let vs = version_to_string version;
          generate = then_do [Print (lit ''Generating configuration files'')]
                       (generate_files py w server proxy settings version)
      in call (makedirs_error w) (MakeDirs (lit ''current''))
           (then_do [if copytree_ok w then CopyTree (lit ''old/world'') (lit ''current/world'')
                     else Print (lit ''Failed to copy old world or no old world exists'')]
              (call (copy_jar w)
                 (CopyFile (lit ''servers/'' @ vs @ lit ''/server.jar'') (lit ''current/server.jar''))
                 (if eula_exists w then generate
                  else call (eula_touch_error w) (Touch (lit ''current/eula.txt''))
                         (call (eula_write_error w)
                            (WriteText (lit ''current/eula.txt'') (lit ''eula=true''))
                            generate)))))"

text \<open>\<open>upgrade_version\<close> from the first \<open>print\<close> after the choice of the target on.\<close>

definition migrate :: "pylib \<Rightarrow> world \<Rightarrow> bool \<Rightarrow> bool \<Rightarrow> flat \<Rightarrow> version \<Rightarrow> run" where
  "migrate py w server proxy settings version =
     then_do [Print (lit ''Upgrading to server version '' @ version_to_string version
                     @ lit ''...'')]
       (call_if proxy (proxy_stop_error w) ProxyStop
          (call_if server (server_stop_error w) ServerStop
             (case rename_current w of
                RenamePermissionError \<Rightarrow>
                  ([Print (lit ''Permission denied '' @ [8211]
                           @ lit '' maybe the folder is open in another program.'')],
                   None)
              | RenameOSError err \<Rightarrow>
                  ([Print (lit ''Failed to move current folder: '' @ err)], None)
              | RenameFileNotFound \<Rightarrow> setup_server py w server proxy settings version
              | RenameOk \<Rightarrow>
                  then_do [Rename (lit ''current'') (lit ''old'')]
                    (setup_server py w server proxy settings version))))"

text \<open>
  \<open>server\<close> and \<open>proxy\<close> say whether the two optional arguments were given. The result
  is the effects and the exception that ended the call, if one did.
\<close>

definition upgrade_version :: "pylib \<Rightarrow> world \<Rightarrow> bool \<Rightarrow> bool \<Rightarrow> run" where
  "upgrade_version py w server proxy =
     (case get_version py (current_txt w) of
        (f', effs, Inl e) \<Rightarrow> (effs, Some e)
      | (f', effs, Inr version) \<Rightarrow>
          (case get_versions py (servers w) of
             Inl e \<Rightarrow> (effs, Some e)
           | Inr versions \<Rightarrow>
               (case get_settings (settings_json w) of
                  Inl e \<Rightarrow> (effs, Some e)
                | Inr settings \<Rightarrow>
                    (case select_version version versions of
                       Inl e \<Rightarrow> (effs, Some e)
                     | Inr None \<Rightarrow>
                         (effs @ [Print (lit ''No later versions are available!'')], None)
                     | Inr (Some target) \<Rightarrow>
                         then_do effs (migrate py w server proxy settings target)))))"


section \<open>The gate of the scheduler (scheduler.py)\<close>

text \<open>
  \<open>check_updates\<close> reads the clock three times: \<open>datetime.now(timezone.utc)\<close> for the
  elapsed time, \<open>datetime.today().weekday()\<close> (the local date) and the hour of a second
  \<open>datetime.now(timezone.utc)\<close>.
\<close>

record clock =
  now_micros :: int
  today_weekday :: int
  now_hour :: int

definition day_micros :: int where
  "day_micros = 86400 * 1000000"

text \<open>
  \<open>timedelta(days=value)\<close>, in microseconds; a bool counts as 0 or 1, more than
  999999999 days overflow.
\<close>

definition timedelta_days :: "pylib \<Rightarrow> leaf \<Rightarrow> py_error + int" where
  "timedelta_days py v =
     (case v of
        LInt n \<Rightarrow> if abs n \<le> 999999999 then Inr (n * day_micros) else Inl OverflowError
      | LBool b \<Rightarrow> Inr (if b then day_micros else 0)
      | LFloat x \<Rightarrow> float_days py x
      | _ \<Rightarrow> Inl TypeError)"

text \<open>\<open>update_time + delta\<close>: the wall clock of the sum has to stay within the years 1 to 9999.\<close>

definition min_wall :: int where
  "min_wall = - 62135596800000000"

definition max_wall :: int where
  "max_wall = 253402300799999999"

definition datetime_add :: "datetime \<Rightarrow> int \<Rightarrow> py_error + datetime" where
  "datetime_add dt delta =
     (let wall = micros dt + delta + (case utcoffset dt of None \<Rightarrow> 0 | Some off \<Rightarrow> off)
      in if min_wall \<le> wall \<and> wall \<le> max_wall then Inr (dt\<lparr>micros := micros dt + delta\<rparr>)
         else Inl OverflowError)"

text \<open>\<open>dt > now\<close> for an aware \<open>now\<close>: comparing a naive \<open>datetime\<close> with it raises.\<close>

definition later_than_now :: "datetime \<Rightarrow> int \<Rightarrow> py_error + bool" where
  "later_than_now dt now =
     (case utcoffset dt of None \<Rightarrow> Inl TypeError | Some _ \<Rightarrow> Inr (micros dt > now))"

text \<open>The \<open>match\<close> on \<open>settings["update_weekday"]\<close>; \<open>weekday\<close> was set to 0 before it.\<close>

definition target_weekday :: "leaf \<Rightarrow> int" where
  "target_weekday v =
     (if v = LStr (lit ''monday'') then 0
      else if v = LStr (lit ''tuesday'') then 1
      else if v = LStr (lit ''wednesday'') then 2
      else if v = LStr (lit ''thursday'') then 3
      else if v = LStr (lit ''friday'') then 4
      else if v = LStr (lit ''saturday'') then 5
      else if v = LStr (lit ''sunday'') then 6
      else 0)"

text \<open>\<open>value != hour\<close> for a leaf and an integer.\<close>

definition differs_from_int :: "pylib \<Rightarrow> leaf \<Rightarrow> int \<Rightarrow> bool" where
  "differs_from_int py v n =
     (case v of
        LInt i \<Rightarrow> i \<noteq> n
      | LBool b \<Rightarrow> (if b then 1 else 0) \<noteq> n
      | LFloat x \<Rightarrow> \<not> float_eq_int py x n
      | _ \<Rightarrow> True)"

text \<open>The three tests of \<open>check_updates\<close>; \<open>Inr True\<close> is the branch that returns.\<close>

definition not_yet_due :: "pylib \<Rightarrow> flat \<Rightarrow> datetime \<Rightarrow> clock \<Rightarrow> py_error + bool" where
  "not_yet_due py settings update_time clk =
     (case dict_get settings (lit ''update_frequency_days'') of
        Inl e \<Rightarrow> Inl e
      | Inr days \<Rightarrow>
          (case timedelta_days py days of
             Inl e \<Rightarrow> Inl e
           | Inr delta \<Rightarrow>
               (case datetime_add update_time delta of
                  Inl e \<Rightarrow> Inl e
                | Inr due \<Rightarrow> later_than_now due (now_micros clk))))"

definition wrong_weekday :: "flat \<Rightarrow> clock \<Rightarrow> py_error + bool" where
  "wrong_weekday settings clk =
     (case dict_get settings (lit ''update_weekday'') of
        Inl e \<Rightarrow> Inl e
      | Inr wd \<Rightarrow> Inr (today_weekday clk \<noteq> target_weekday wd))"

definition wrong_hour :: "pylib \<Rightarrow> flat \<Rightarrow> clock \<Rightarrow> py_error + bool" where
  "wrong_hour py settings clk =
     (case dict_get settings (lit ''update_time_utc'') of
        Inl e \<Rightarrow> Inl e
      | Inr hour \<Rightarrow> Inr (differs_from_int py hour (now_hour clk)))"

text \<open>\<open>Inr True\<close>: none of the three tests returned, so \<open>upgrade_version\<close> is called.\<close>

definition gates :: "pylib \<Rightarrow> flat \<Rightarrow> datetime \<Rightarrow> clock \<Rightarrow> py_error + bool" where
  "gates py settings update_time clk =
     (case not_yet_due py settings update_time clk of
        Inl e \<Rightarrow> Inl e
      | Inr True \<Rightarrow> Inr False
      | Inr False \<Rightarrow>
          (case wrong_weekday settings clk of
             Inl e \<Rightarrow> Inl e
           | Inr True \<Rightarrow> Inr False
           | Inr False \<Rightarrow>
               (case wrong_hour py settings clk of
                  Inl e \<Rightarrow> Inl e
                | Inr True \<Rightarrow> Inr False
                | Inr False \<Rightarrow> Inr True)))"

datatype check_result =
  Raised py_error | NotDue | Upgraded "effect list \<times> py_error option"

text \<open>
  \<open>Upgraded r\<close>: \<open>upgrade_version(server, proxy)\<close> was called and did \<open>r\<close>. The effects
  in front are those of \<open>get_update_time\<close>, which may have created \<open>current.txt\<close>. The
  server is always given; \<open>proxy\<close> says whether the proxy is.
\<close>

definition check_updates ::
  "pylib \<Rightarrow> clock \<Rightarrow> world \<Rightarrow> bool \<Rightarrow> effect list \<times> check_result" where
  "check_updates py clk w proxy =
     (case get_settings (settings_json w) of
        Inl e \<Rightarrow> ([], Raised e)
      | Inr settings \<Rightarrow>
          (case get_update_time py (current_txt w) of
             (f', effs, Inl e) \<Rightarrow> (effs, Raised e)
           | (f', effs, Inr update_time) \<Rightarrow>
               (case gates py settings update_time clk of
                  Inl e \<Rightarrow> (effs, Raised e)
                | Inr False \<Rightarrow> (effs, NotDue)
                | Inr True \<Rightarrow>
                    (effs, Upgraded (upgrade_version py (w\<lparr>current_txt := f'\<rparr>) True proxy)))))"

text \<open>
  The gate in the words of the specification, for settings that hold an integer number
  of days, a weekday and an hour, and an aware activation time.
\<close>

definition elapsed_enough :: "datetime \<Rightarrow> int \<Rightarrow> clock \<Rightarrow> bool" where
  "elapsed_enough update_time days clk = (now_micros clk - micros update_time \<ge> days * day_micros)"

section \<open>Supervised processes (server.py, proxy.py)\<close>

text \<open>
  The three private attributes of a \<open>JavaServer\<close> and of a \<open>ProxyServer\<close>: the stop
  event, the \<open>Popen\<close> handle and the worker thread. The operating system answers through
  \<open>os\<close>: whether \<open>poll()\<close> is \<open>None\<close>, whether \<open>terminate\<close> or \<open>kill\<close> raises, how
  \<open>wait\<close> and \<open>join\<close> end for a given timeout, whether a thread is alive and whether
  \<open>Thread.start\<close> raises. What the worker thread itself does is outside the model: the
  functions below are \<open>start\<close> and \<open>stop\<close> as the controlling thread runs them.
\<close>

type_synonym proc = nat
type_synonym thread = nat

datatype wait_outcome = WaitExited | WaitTimeoutExpired | WaitForever

datatype join_outcome = Joined | JoinRaised py_error | JoinForever

record os =
  poll_is_none :: "proc \<Rightarrow> bool"
  terminate_error :: "proc \<Rightarrow> py_error option"
  kill_error :: "proc \<Rightarrow> py_error option"
  wait :: "proc \<Rightarrow> pyfloat option \<Rightarrow> wait_outcome"
  join :: "thread \<Rightarrow> pyfloat option \<Rightarrow> join_outcome"
  is_alive :: "thread \<Rightarrow> bool"
  start_error :: "thread \<Rightarrow> py_error option"

datatype event =
    Log ustr
  | LogStillAlive "pyfloat option"
  | Terminate proc
  | Kill proc
  | Join thread
  | StartThread thread

text \<open>A call returns, raises, or never returns; the first two with what it has done.\<close>

datatype 'a outcome = Returns 'a | Raises py_error 'a | Blocks

record JavaServer =
  js_stop_event :: bool
  js_proc :: "proc option"
  js_thread :: "thread option"

record ProxyServer =
  px_version :: ustr
  px_stop_event :: bool
  px_proc :: "proc option"
  px_thread :: "thread option"

text \<open>The \<open>if self._proc and self._proc.poll() is None\<close> block, the same in both classes.\<close>

definition stop_process :: "os \<Rightarrow> pyfloat option \<Rightarrow> proc option \<Rightarrow> event list outcome" where
  "stop_process env timeout p =
     (case p of
        None \<Rightarrow> Returns []
      | Some h \<Rightarrow>
          if poll_is_none env h then
            (let e1 = [Log (lit ''Terminating JVM '' @ [8230])]
             in case terminate_error env h of
                  Some e \<Rightarrow> Raises e e1
                | None \<Rightarrow>
                    (case wait env h timeout of
                       WaitExited \<Rightarrow>
                         Returns (e1 @ [Terminate h, Log (lit ''JVM exited gracefully'')])
                     | WaitForever \<Rightarrow> Blocks
                     | WaitTimeoutExpired \<Rightarrow>
                         (let e2 = e1 @ [Terminate h,
                                         Log (lit ''JVM did not exit in time '' @ [8211]
                                              @ lit '' killing'')]
                          in case kill_error env h of
                               Some e \<Rightarrow> Raises e e2
                             | None \<Rightarrow>
                                 (case wait env h None of
                                    WaitExited \<Rightarrow> Returns (e2 @ [Kill h])
                                  | WaitForever \<Rightarrow> Blocks
                                  | WaitTimeoutExpired \<Rightarrow> Raises TimeoutExpired (e2 @ [Kill h])))))
          else Returns [])"

text \<open>The \<open>if self._thread\<close> block.\<close>

definition join_thread :: "os \<Rightarrow> pyfloat option \<Rightarrow> thread option \<Rightarrow> event list outcome" where
  "join_thread env timeout t =
     (case t of
        None \<Rightarrow> Returns []
      | Some th \<Rightarrow>
          (case join env th timeout of
             JoinForever \<Rightarrow> Blocks
           | JoinRaised e \<Rightarrow> Raises e []
           | Joined \<Rightarrow>
               Returns [Join th,
                        if is_alive env th then LogStillAlive timeout
                        else Log (lit ''Thread finished cleanly'')]))"

text \<open>
  \<open>stop\<close>: an exception leaves the object as it is at that point, the stop event set and
  the two handles in place.
\<close>

definition JavaServer_stop ::
  "os \<Rightarrow> pyfloat option \<Rightarrow> JavaServer \<Rightarrow> (JavaServer \<times> event list) outcome" where
  "JavaServer_stop env timeout self =
     (let self1 = self\<lparr>js_stop_event := True\<rparr>;
          e0 = [Log (lit ''Stopping Java server '' @ [8230])]
      in case stop_process env timeout (js_proc self1) of
           Blocks \<Rightarrow> Blocks
         | Raises e ev1 \<Rightarrow> Raises e (self1, e0 @ ev1)
         | Returns ev1 \<Rightarrow>
             (case join_thread env timeout (js_thread self1) of
                Blocks \<Rightarrow> Blocks
              | Raises e ev2 \<Rightarrow> Raises e (self1, e0 @ ev1 @ ev2)
              | Returns ev2 \<Rightarrow>
                  Returns (self1\<lparr>js_thread := None, js_proc := None, js_stop_event := False\<rparr>,
                           e0 @ ev1 @ ev2)))"

definition ProxyServer_stop ::
  "os \<Rightarrow> pyfloat option \<Rightarrow> ProxyServer \<Rightarrow> (ProxyServer \<times> event list) outcome" where
  "ProxyServer_stop env timeout self =
     (let self1 = self\<lparr>px_stop_event := True\<rparr>;
          e0 = [Log (lit ''Stopping Proxy server '' @ [8230])]
      in case stop_process env timeout (px_proc self1) of
           Blocks \<Rightarrow> Blocks
         | Raises e ev1 \<Rightarrow> Raises e (self1, e0 @ ev1)
         | Returns ev1 \<Rightarrow>
             (case join_thread env timeout (px_thread self1) of
                Blocks \<Rightarrow> Blocks
              | Raises e ev2 \<Rightarrow> Raises e (self1, e0 @ ev1 @ ev2)
              | Returns ev2 \<Rightarrow>
                  Returns (self1\<lparr>px_thread := None, px_proc := None, px_stop_event := False\<rparr>,
                           e0 @ ev1 @ ev2)))"

text \<open>\<open>start\<close>: \<open>fresh\<close> is the thread that \<open>threading.Thread(...)\<close> creates.\<close>

definition thread_running :: "os \<Rightarrow> thread option \<Rightarrow> bool" where
  "thread_running env t = (case t of None \<Rightarrow> False | Some th \<Rightarrow> is_alive env th)"

definition JavaServer_start ::
  "os \<Rightarrow> thread \<Rightarrow> JavaServer \<Rightarrow> (JavaServer \<times> event list) outcome" where
  "JavaServer_start env fresh self =
     (if thread_running env (js_thread self)
      then Returns (self, [Log (lit ''Server thread already running'')])
      else (case start_error env fresh of
              Some e \<Rightarrow> Raises e (self\<lparr>js_thread := Some fresh\<rparr>, [])
            | None \<Rightarrow>
                Returns (self\<lparr>js_thread := Some fresh\<rparr>,
                         [StartThread fresh, Log (lit ''JavaServer thread started'')])))"

definition ProxyServer_start ::
  "os \<Rightarrow> thread \<Rightarrow> ProxyServer \<Rightarrow> (ProxyServer \<times> event list) outcome" where
  "ProxyServer_start env fresh self =
     (if thread_running env (px_thread self)
      then Returns (self, [Log (lit ''ProxyServer thread already running'')])
      else (case start_error env fresh of
              Some e \<Rightarrow> Raises e (self\<lparr>px_thread := Some fresh\<rparr>, [])
            | None \<Rightarrow>
                Returns (self\<lparr>px_thread := Some fresh\<rparr>,
                         [StartThread fresh, Log (lit ''ProxyServer thread started'')])))"

section \<open>Sample inputs for the closed examples\<close>

text \<open>
  \<open>py1\<close> is \<open>py0\<close> with a \<open>fromisoformat\<close> that knows one time stamp, the one of the
  default record: midnight of 1 January 2000 (a Saturday) in UTC, which is 946684800
  seconds after the epoch.
\<close>

definition py1 :: pylib where
  "py1 = py0\<lparr> fromisoformat :=
           (\<lambda>s. if s = lit ''2000-01-01 00:00:00.000000+00:00''
                then Some \<lparr> micros = 946684800000000, utcoffset = Some 0 \<rparr> else None) \<rparr>"

text \<open>
  Settings that ask for an upgrade every 7 days on the given weekday at 3 o'clock UTC,
  and a world with these settings, the default record, an empty catalog directory and
  calls that all succeed.
\<close>

definition sample_settings :: "ustr \<Rightarrow> json" where
  "sample_settings weekday =
     JDict [(lit ''update_frequency_days'', JLeaf (LInt 7)),
            (lit ''update_weekday'', JLeaf (LStr weekday)),
            (lit ''update_time_utc'', JLeaf (LInt 3)),
            (lit ''java-Xmx'', JLeaf (LStr (lit ''2G''))),
            (lit ''java-Xms'', JLeaf (LStr (lit ''1G''))),
            (lit ''discord_webhook_url'', JLeaf (LStr []))]"

definition sample_world :: "ustr \<Rightarrow> world" where
  "sample_world weekday =
     \<lparr> current_txt = Content default_record,
       servers = Some [],
       settings_json = Inr (sample_settings weekday),
       properties_json = Inr (JDict []),
       proxy_stop_error = None,
       server_stop_error = None,
       rename_current = RenameOk,
       makedirs_error = None,
       copytree_ok = True,
       copy_jar = None,
       eula_exists = True,
       eula_touch_error = None,
       eula_write_error = None,
       java_run = RunTimeoutExpired,
       server_properties = Content (lit ''motd=x''),
       utc_now_str = lit ''2000-01-09 03:00:00.000000+00:00'',
       record_write_error = None,
       server_start_error = None,
       proxy_start_error = None,
       discord_post = PostOk \<rparr>"

text \<open>The same world with the directories \<open>1.16\<close> and \<open>1.16.0\<close>, running \<open>1.16.0\<close>.\<close>

definition duplicate_world :: world where
  "duplicate_world =
     (sample_world (lit ''sunday''))
       \<lparr> current_txt := Content (lit ''1.16.0'' @ [10] @ lit ''2000-01-01 00:00:00.000000+00:00''),
         servers := Some [(lit ''1.16'', True), (lit ''1.16.0'', True)] \<rparr>"

text \<open>
  Sunday 9 January 2000 and Monday 10 January 2000, 3 o'clock UTC, in a time zone where
  the local date is the UTC date.
\<close>

definition sunday_clock :: clock where
  "sunday_clock = \<lparr> now_micros = 947386800000000, today_weekday = 6, now_hour = 3 \<rparr>"

definition monday_clock :: clock where
  "monday_clock = \<lparr> now_micros = 947473200000000, today_weekday = 0, now_hour = 3 \<rparr>"

text \<open>An operating system in which every process and thread ends when asked to.\<close>

definition sample_os :: os where
  "sample_os =
     \<lparr> poll_is_none = (\<lambda>h. True),
       terminate_error = (\<lambda>h. None),
       kill_error = (\<lambda>h. None),
       wait = (\<lambda>h timeout. WaitExited),
       join = (\<lambda>t timeout. Joined),
       is_alive = (\<lambda>t. False),
       start_error = (\<lambda>t. None) \<rparr>"

text \<open>
  An operating system that cannot start another thread: \<open>Thread.start\<close> raises
  \<open>RuntimeError\<close>, and so does \<open>join\<close> on a thread that was never started.
\<close>

definition unstarted_os :: os where
  "unstarted_os =
     sample_os\<lparr> join := (\<lambda>t timeout. JoinRaised RuntimeError),
                start_error := (\<lambda>t. Some RuntimeError) \<rparr>"

text \<open>An operating system in which every process has exited already.\<close>

definition idle_os :: os where
  "idle_os = sample_os\<lparr> poll_is_none := (\<lambda>h. False) \<rparr>"

section \<open>Properties of version strings\<close>

lemma py0_ok: "unicode_ok py0"
  by (auto simp: unicode_ok_def py0_def ascii_digit_def ascii_alnum_def)

lemma digit_val_lt: "unicode_ok py \<Longrightarrow> digit_val py c < 10"
  by (auto simp: unicode_ok_def digit_val_def split: option.splits)

lemma dot_not_digit: "unicode_ok py \<Longrightarrow> \<not> is_digit py 46"
  by (simp add: unicode_ok_def is_digit_def ascii_digit_def)

lemma newline_not_digit: "unicode_ok py \<Longrightarrow> \<not> is_digit py 10"
  by (simp add: unicode_ok_def is_digit_def ascii_digit_def)

lemma ascii_digit_val: "unicode_ok py \<Longrightarrow> ascii_digit c \<Longrightarrow> digit_val py c = c - 48"
  by (simp add: unicode_ok_def digit_val_def)

lemma ascii_digit_is_digit: "unicode_ok py \<Longrightarrow> ascii_digit c \<Longrightarrow> is_digit py c"
  by (simp add: unicode_ok_def is_digit_def)

lemma digit_fixed:
  assumes "unicode_ok py"
  shows "(48 + digit_val py c = c) = ascii_digit c"
proof
  assume "48 + digit_val py c = c"
  then show "ascii_digit c" using digit_val_lt[OF assms, of c] by (simp add: ascii_digit_def)
next
  assume "ascii_digit c"
  then show "48 + digit_val py c = c"
    using ascii_digit_val[OF assms] by (simp add: ascii_digit_def)
qed

lemma digit_value_snoc: "digit_value py (s @ [c]) = 10 * digit_value py s + digit_val py c"
  by (simp add: digit_value_def)

lemma digit_value_zero:
  "(digit_value py s = 0) = (dropWhile (\<lambda>c. digit_val py c = 0) s = [])"
proof (induction s rule: rev_induct)
  case Nil
  show ?case by (simp add: digit_value_def)
next
  case (snoc c s)
  then show ?case
    by (auto simp: digit_value_snoc dropWhile_append dropWhile_eq_Nil_conv)
qed

lemma digits_of_value:
  assumes ok: "unicode_ok py"
  shows "s \<noteq> [] \<Longrightarrow> digits_of (digit_value py s) = canonical py s"
proof (induction s rule: rev_induct)
  case Nil
  then show ?case by simp
next
  case (snoc c s)
  have lt: "digit_val py c < 10" by (rule digit_val_lt[OF ok])
  show ?case
  proof (cases "digit_value py s = 0")
    case True
    then have z: "dropWhile (\<lambda>c. digit_val py c = 0) s = []"
      by (simp add: digit_value_zero)
    then have all0: "\<forall>x\<in>set s. digit_val py x = 0"
      by (simp add: dropWhile_eq_Nil_conv)
    have "digits_of (digit_value py (s @ [c])) = [48 + digit_val py c]"
      using True lt
      by (simp add: digit_value_snoc digits_of.simps[of "digit_val py c"] digit_char_def)
    moreover have "canonical py (s @ [c]) = [48 + digit_val py c]"
      using all0 by (auto simp: canonical_def dropWhile_append Let_def)
    ultimately show ?thesis by simp
  next
    case False
    then have nz: "dropWhile (\<lambda>c. digit_val py c = 0) s \<noteq> []"
      by (simp add: digit_value_zero)
    then have sne: "s \<noteq> []" by auto
    have ex: "\<exists>x\<in>set s. digit_val py x \<noteq> 0"
      using nz by (simp add: dropWhile_eq_Nil_conv)
    have "digits_of (digit_value py (s @ [c])) = digits_of (digit_value py s) @ [48 + digit_val py c]"
      using False lt
      by (simp add: digit_value_snoc
          digits_of.simps[of "10 * digit_value py s + digit_val py c"] digit_char_def)
    also have "\<dots> = canonical py s @ [48 + digit_val py c]"
      using snoc.IH[OF sne] by simp
    also have "\<dots> = canonical py (s @ [c])"
      using nz ex by (auto simp: canonical_def dropWhile_append Let_def)
    finally show ?thesis .
  qed
qed

lemma py_int_short:
  "length s \<le> 4300 \<Longrightarrow> py_int py s = Inr (int (digit_value py s))"
  by (simp add: py_int_def int_max_str_digits_def digit_value_def)

lemma py_int_long: "4300 < length s \<Longrightarrow> py_int py s = Inl ValueError"
  by (simp add: py_int_def int_max_str_digits_def)

lemma py_str_int_value:
  "unicode_ok py \<Longrightarrow> s \<noteq> [] \<Longrightarrow> py_str_int (int (digit_value py s)) = canonical py s"
  by (simp add: py_str_int_def digits_of_value)

lemma canonical_zero: "unicode_ok py \<Longrightarrow> canonical py (lit ''0'') = lit ''0''"
  by (simp add: canonical_def lit_def ascii_digit_val ascii_digit_def)

lemma canonical_fixed:
  assumes ok: "unicode_ok py" and ne: "s \<noteq> []"
  shows "(canonical py s = s) = (list_all ascii_digit s \<and> (s = [48] \<or> hd s \<noteq> 48))"
proof (cases "dropWhile (\<lambda>c. digit_val py c = 0) s = []")
  case True
  then have all0: "\<forall>x\<in>set s. digit_val py x = 0" by (simp add: dropWhile_eq_Nil_conv)
  have c: "canonical py s = [48]" using True by (simp add: canonical_def)
  have v48: "digit_val py 48 = 0" using ascii_digit_val[OF ok, of 48] by (simp add: ascii_digit_def)
  show ?thesis
  proof
    assume "canonical py s = s"
    then have "s = [48]" using c by simp
    then show "list_all ascii_digit s \<and> (s = [48] \<or> hd s \<noteq> 48)"
      by (simp add: ascii_digit_def)
  next
    assume r: "list_all ascii_digit s \<and> (s = [48] \<or> hd s \<noteq> 48)"
    have "hd s \<in> set s" using ne by simp
    then have "digit_val py (hd s) = 0" using all0 by blast
    moreover have "ascii_digit (hd s)" using r ne \<open>hd s \<in> set s\<close> by (simp add: list_all_iff)
    ultimately have "hd s = 48"
      using ascii_digit_val[OF ok, of "hd s"] by (simp add: ascii_digit_def)
    then show "canonical py s = s" using r c by simp
  qed
next
  case False
  let ?t = "dropWhile (\<lambda>c. digit_val py c = 0) s"
  have c: "canonical py s = map (\<lambda>c. 48 + digit_val py c) ?t"
    using False by (auto simp: canonical_def Let_def)
  show ?thesis
  proof
    assume eq: "canonical py s = s"
    then have "length ?t = length s" using c by (metis length_map)
    then have "length (takeWhile (\<lambda>c. digit_val py c = 0) s) = 0"
      using takeWhile_dropWhile_id[of "\<lambda>c. digit_val py c = 0" s]
      by (metis add_diff_cancel_right' diff_self_eq_0 length_append)
    then have ts: "?t = s"
      using takeWhile_dropWhile_id[of "\<lambda>c. digit_val py c = 0" s] by simp
    then have m: "map (\<lambda>c. 48 + digit_val py c) s = s" using eq c by simp
    have "map (\<lambda>c. 48 + digit_val py c) s = map id s" using m by simp
    then have "\<forall>x\<in>set s. 48 + digit_val py x = id x" unfolding map_eq_conv .
    then have all: "list_all ascii_digit s"
      using digit_fixed[OF ok] by (simp add: list_all_iff)
    have "digit_val py (hd s) \<noteq> 0"
      using hd_dropWhile[of "\<lambda>c. digit_val py c = 0" s] ts ne by simp
    then have "hd s \<noteq> 48"
      using ascii_digit_val[OF ok, of 48] by (auto simp: ascii_digit_def)
    then show "list_all ascii_digit s \<and> (s = [48] \<or> hd s \<noteq> 48)" using all by simp
  next
    assume r: "list_all ascii_digit s \<and> (s = [48] \<or> hd s \<noteq> 48)"
    have "s \<noteq> [48]"
      using False ascii_digit_val[OF ok, of 48] by (auto simp: ascii_digit_def)
    then have h: "hd s \<noteq> 48" using r by simp
    have "ascii_digit (hd s)" using r ne by (cases s) simp_all
    then have "digit_val py (hd s) \<noteq> 0"
      using h ascii_digit_val[OF ok, of "hd s"] by (simp add: ascii_digit_def)
    then have ts: "?t = s" using ne by (cases s) simp_all
    have "\<forall>x\<in>set s. 48 + digit_val py x = x"
      using r digit_fixed[OF ok] by (simp add: list_all_iff)
    then have "map (\<lambda>c. 48 + digit_val py c) s = s"
      by (induction s) simp_all
    then show "canonical py s = s" using c ts by simp
  qed
qed

lemma takeWhile_digits_dot:
  "\<not> is_digit py 46 \<Longrightarrow> \<forall>x\<in>set a. is_digit py x \<Longrightarrow> takeWhile (is_digit py) (a @ 46 # r) = a"
  by (induction a) simp_all

lemma dropWhile_digits_dot:
  "\<not> is_digit py 46 \<Longrightarrow> \<forall>x\<in>set a. is_digit py x \<Longrightarrow>
   dropWhile (is_digit py) (a @ 46 # r) = 46 # r"
  by (induction a) simp_all

lemma takeWhile_digits_end: "\<forall>x\<in>set a. is_digit py x \<Longrightarrow> takeWhile (is_digit py) a = a"
  by (induction a) simp_all

lemma dropWhile_digits_end: "\<forall>x\<in>set a. is_digit py x \<Longrightarrow> dropWhile (is_digit py) a = []"
  by (induction a) simp_all

lemma strip_digits_end:
  "unicode_ok py \<Longrightarrow> digit_string py c \<Longrightarrow> strip_final_newline (r @ c) = r @ c"
  using newline_not_digit[of py]
  by (cases c rule: rev_cases) (auto simp: strip_final_newline_def digit_string_def)

lemma match3:
  assumes "unicode_ok py" and "digit_string py a" and "digit_string py b" and "digit_string py c"
  shows "VERSION_RE_match py (a @ lit ''.'' @ b @ lit ''.'' @ c) = Some (a, b, Some c)"
  using assms strip_digits_end[OF assms(1) assms(4), of "a @ lit ''.'' @ b @ lit ''.''"]
    dot_not_digit[OF assms(1)]
  by (simp add: VERSION_RE_match_def Let_def digit_string_def list_all_iff lit_def
      takeWhile_digits_dot dropWhile_digits_dot takeWhile_digits_end dropWhile_digits_end)

lemma match2:
  assumes "unicode_ok py" and "digit_string py a" and "digit_string py b"
  shows "VERSION_RE_match py (a @ lit ''.'' @ b) = Some (a, b, None)"
  using assms strip_digits_end[OF assms(1) assms(3), of "a @ lit ''.''"]
    dot_not_digit[OF assms(1)]
  by (simp add: VERSION_RE_match_def Let_def digit_string_def list_all_iff lit_def
      takeWhile_digits_dot dropWhile_digits_dot takeWhile_digits_end dropWhile_digits_end)

text \<open>
  The strings \<open>VERSION_RE\<close> accepts are those of the form \<open>MAJOR.MINOR\<close> or
  \<open>MAJOR.MINOR.PATCH\<close> with non-empty digit strings, possibly followed by one newline.
\<close>

lemma VERSION_RE_match_shape:
  assumes "VERSION_RE_match py name = Some (a, b, po)"
  shows "digit_string py a \<and> digit_string py b
       \<and> (case po of
            None \<Rightarrow> strip_final_newline name = a @ lit ''.'' @ b
          | Some c \<Rightarrow> digit_string py c \<and> strip_final_newline name = a @ lit ''.'' @ b @ lit ''.'' @ c)"
proof -
  let ?s = "strip_final_newline name"
  let ?P = "is_digit py"
  have tw: "\<And>xs. list_all ?P (takeWhile ?P xs)"
    by (simp add: list_all_iff) (meson set_takeWhileD)
  have a: "a = takeWhile ?P ?s" and ane: "a \<noteq> []"
    using assms by (auto simp: VERSION_RE_match_def Let_def split: list.splits if_splits)
  obtain r2 where r2: "dropWhile ?P ?s = 46 # r2"
    using assms by (auto simp: VERSION_RE_match_def Let_def split: list.splits if_splits)
  have s: "?s = a @ 46 # r2"
    using takeWhile_dropWhile_id[of ?P ?s] a r2 by simp
  have b: "b = takeWhile ?P r2" and bne: "b \<noteq> []"
    using assms r2 by (auto simp: VERSION_RE_match_def Let_def split: list.splits if_splits)
  have r2s: "r2 = b @ dropWhile ?P r2"
    using takeWhile_dropWhile_id[of ?P r2] b by simp
  have da: "digit_string py a" and db: "digit_string py b"
    using a ane b bne tw by (simp_all add: digit_string_def)
  show ?thesis
  proof (cases po)
    case None
    have dw: "dropWhile ?P r2 = []"
      using assms r2 None
      by (auto simp: VERSION_RE_match_def Let_def split: list.splits if_splits)
    have "r2 = b"
      using takeWhile_dropWhile_id[of ?P r2] unfolding dw b[symmetric] by simp
    then show ?thesis using None da db s by (simp add: lit_def)
  next
    case (Some c)
    then obtain r4 where r4: "dropWhile ?P r2 = 46 # r4"
      using assms r2 by (auto simp: VERSION_RE_match_def Let_def split: list.splits if_splits)
    have c: "c = takeWhile ?P r4" and cne: "c \<noteq> []" and r5: "dropWhile ?P r4 = []"
      using assms r2 r4 Some
      by (auto simp: VERSION_RE_match_def Let_def split: list.splits if_splits)
    have "r4 = c"
      using takeWhile_dropWhile_id[of ?P r4] unfolding r5 c[symmetric] by simp
    moreover have "digit_string py c" using c cne tw by (simp add: digit_string_def)
    ultimately show ?thesis using Some da db s r2s r4 by (simp add: lit_def)
  qed
qed

lemma parse_format_three:
  assumes "unicode_ok py" and "digit_string py a" and "digit_string py b" and "digit_string py c"
  shows "parse_format py (a @ lit ''.'' @ b @ lit ''.'' @ c) =
           (if length a \<le> 4300 \<and> length b \<le> 4300 \<and> length c \<le> 4300
            then Inr (Some (canonical py a @ lit ''.'' @ canonical py b @ lit ''.'' @ canonical py c))
            else Inl ValueError)"
proof -
  have ne: "a \<noteq> []" "b \<noteq> []" "c \<noteq> []" using assms by (simp_all add: digit_string_def)
  have m: "VERSION_RE_match py (a @ lit ''.'' @ b @ lit ''.'' @ c) = Some (a, b, Some c)"
    by (rule match3[OF assms])
  show ?thesis
  proof (cases "length a \<le> 4300 \<and> length b \<le> 4300 \<and> length c \<le> 4300")
    case True
    then show ?thesis
      using m ne assms(1)
      by (simp add: parse_format_def parse_version_def py_int_short version_to_string_def
          py_str_int_value)
  next
    case False
    then consider "4300 < length a" | "length a \<le> 4300" "4300 < length b"
      | "length a \<le> 4300" "length b \<le> 4300" "4300 < length c"
      by linarith
    then show ?thesis
    proof cases
      case 1
      then show ?thesis using m False
        by (simp add: parse_format_def parse_version_def py_int_long)
    next
      case 2
      then show ?thesis using m False
        by (simp add: parse_format_def parse_version_def py_int_long py_int_short)
    next
      case 3
      then show ?thesis using m False
        by (simp add: parse_format_def parse_version_def py_int_long py_int_short)
    qed
  qed
qed

lemma parse_format_two:
  assumes "unicode_ok py" and "digit_string py a" and "digit_string py b"
  shows "parse_format py (a @ lit ''.'' @ b) =
           (if length a \<le> 4300 \<and> length b \<le> 4300
            then Inr (Some (canonical py a @ lit ''.'' @ canonical py b @ lit ''.0''))
            else Inl ValueError)"
proof -
  have ne: "a \<noteq> []" "b \<noteq> []" using assms by (simp_all add: digit_string_def)
  have m: "VERSION_RE_match py (a @ lit ''.'' @ b) = Some (a, b, None)"
    by (rule match2[OF assms])
  have z: "py_int py (lit ''0'') = Inr (int (digit_value py (lit ''0'')))"
    by (rule py_int_short) (simp add: lit_def)
  have zs: "py_str_int (int (digit_value py (lit ''0''))) = lit ''0''"
    using py_str_int_value[OF assms(1), of "lit ''0''"] canonical_zero[OF assms(1)]
    by (simp add: lit_def)
  show ?thesis
  proof (cases "length a \<le> 4300 \<and> length b \<le> 4300")
    case True
    then show ?thesis
      using m ne assms(1) z zs
      by (simp add: parse_format_def parse_version_def py_int_short version_to_string_def
          py_str_int_value lit_def)
  next
    case False
    then consider "4300 < length a" | "length a \<le> 4300" "4300 < length b"
      by linarith
    then show ?thesis
    proof cases
      case 1
      then show ?thesis using m False
        by (simp add: parse_format_def parse_version_def py_int_long)
    next
      case 2
      then show ?thesis using m False
        by (simp add: parse_format_def parse_version_def py_int_long py_int_short)
    qed
  qed
qed

text \<open>
  Claim C7, as amended. For every version string \<open>MAJOR.MINOR.PATCH\<close> or \<open>MAJOR.MINOR\<close>
  whose components are non-empty strings of decimal digits (of any script) with at most
  4300 digits each, \<open>parse_version\<close> returns a tuple and \<open>version_to_string\<close> of it is
  the three components written in ASCII digits without leading zeros, the patch being
  \<open>0\<close> when it is absent; when a component has more than 4300 digits \<open>parse_version\<close>
  raises \<open>ValueError\<close>. A component comes back unchanged exactly when it is made of
  ASCII digits and is \<open>0\<close> or does not start with \<open>0\<close>.
\<close>

theorem parse_format_roundtrip:
  assumes "unicode_ok py" and "digit_string py a" and "digit_string py b" and "digit_string py c"
  shows "parse_format py (a @ lit ''.'' @ b @ lit ''.'' @ c) =
           (if length a \<le> 4300 \<and> length b \<le> 4300 \<and> length c \<le> 4300
            then Inr (Some (canonical py a @ lit ''.'' @ canonical py b @ lit ''.'' @ canonical py c))
            else Inl ValueError)
       \<and> parse_format py (a @ lit ''.'' @ b) =
           (if length a \<le> 4300 \<and> length b \<le> 4300
            then Inr (Some (canonical py a @ lit ''.'' @ canonical py b @ lit ''.0''))
            else Inl ValueError)
       \<and> (\<forall>s\<in>{a, b, c}.
             (canonical py s = s) = (list_all ascii_digit s \<and> (s = lit ''0'' \<or> hd s \<noteq> 48)))"
proof -
  have ne: "a \<noteq> []" "b \<noteq> []" "c \<noteq> []" using assms by (simp_all add: digit_string_def)
  have l0: "lit ''0'' = [48]" by (simp add: lit_def)
  show ?thesis
    using parse_format_three[OF assms] parse_format_two[OF assms(1,2,3)]
      canonical_fixed[OF assms(1) ne(1)] canonical_fixed[OF assms(1) ne(2)]
      canonical_fixed[OF assms(1) ne(3)]
    by (simp only: l0 ball_simps insert_iff empty_iff simp_thms)
qed

theorem parse_format_roundtrip_witness:
  "unicode_ok py0 \<and> digit_string py0 [1633] \<and> digit_string py0 (lit ''16'')
   \<and> digit_string py0 (lit ''05'')
   \<and> parse_format py0 ([1633] @ lit ''.16.05'') = Inr (Some (lit ''1.16.5''))
   \<and> parse_format py0 ([1633] @ lit ''.16'') = Inr (Some (lit ''1.16.0''))"
proof -
  have ok: "unicode_ok py0"
    by (auto simp: unicode_ok_def py0_def ascii_digit_def ascii_alnum_def)
  have d: "digit_string py0 [1633]" "digit_string py0 (lit ''16'')" "digit_string py0 (lit ''05'')"
    by (simp_all add: digit_string_def is_digit_def py0_def lit_def)
  have c: "canonical py0 [1633] = [49]" "canonical py0 [49, 54] = [49, 54]"
    "canonical py0 [48, 53] = [53]"
    by (simp_all add: canonical_def digit_val_def py0_def)
  show ?thesis
    using ok d parse_format_roundtrip[OF ok d]
    by (simp add: lit_def c)
qed

theorem roundtrip_leading_zero_counterexample:
  "parse_format py0 (lit ''01.2.3'') = Inr (Some (lit ''1.2.3''))
   \<and> lit ''1.2.3'' \<noteq> lit ''01.2.3''"
  by (simp add: parse_format_def parse_version_def VERSION_RE_match_def
      strip_final_newline_def Let_def is_digit_def py0_def py_int_def int_max_str_digits_def
      digit_val_def version_to_string_def py_str_int_def lit_def
      digits_of.simps[of "Suc 0"] digits_of.simps[of 2] digits_of.simps[of 3] digit_char_def)

section \<open>Properties of the catalog and of the choice of the next version\<close>

lemma parse_sentinel:
  assumes "unicode_ok py"
  shows "parse_version py (lit ''0.0.0'') = Inr (Some sentinel)"
proof -
  have d: "is_digit py 48" "\<not> is_digit py 46"
    using assms by (simp_all add: unicode_ok_def is_digit_def ascii_digit_def)
  have v: "digit_val py 48 = 0"
    using assms by (simp add: unicode_ok_def digit_val_def ascii_digit_def)
  show ?thesis
    using d v
    by (simp add: parse_version_def VERSION_RE_match_def strip_final_newline_def Let_def
        lit_def py_int_def int_max_str_digits_def sentinel_def)
qed

lemma length_strip_final_newline: "length (strip_final_newline s) \<le> length s"
  by (simp add: strip_final_newline_def)

lemma parse_version_short:
  assumes "length name \<le> 4300"
  shows "\<exists>r. parse_version py name = Inr r"
proof (cases "VERSION_RE_match py name")
  case None
  then show ?thesis by (simp add: parse_version_def)
next
  case (Some g)
  obtain a b po where g: "g = (a, b, po)" by (cases g)
  have sh: "digit_string py a \<and> digit_string py b
       \<and> (case po of
            None \<Rightarrow> strip_final_newline name = a @ lit ''.'' @ b
          | Some c \<Rightarrow> digit_string py c \<and> strip_final_newline name = a @ lit ''.'' @ b @ lit ''.'' @ c)"
    using VERSION_RE_match_shape[of py name a b po] Some g by simp
  have l: "length (strip_final_newline name) \<le> 4300"
    using length_strip_final_newline[of name] assms by linarith
  show ?thesis
  proof (cases po)
    case None
    then have "length a \<le> 4300" "length b \<le> 4300" using sh l by auto
    then show ?thesis
      using Some g None by (simp add: parse_version_def py_int_short lit_def)
  next
    case (Some c)
    then have "length a \<le> 4300" "length b \<le> 4300" "length c \<le> 4300" using sh l by auto
    then show ?thesis
      using \<open>VERSION_RE_match py name = Some g\<close> g Some
      by (simp add: parse_version_def py_int_short)
  qed
qed

lemma parse_version_error: "parse_version py name = Inl e \<Longrightarrow> e = ValueError"
  by (auto simp: parse_version_def py_int_def Let_def split: option.splits if_splits sum.splits)

lemma parse_version_minor_nonneg: "parse_version py name = Inr (Some v) \<Longrightarrow> 0 \<le> fst (snd v)"
  by (auto simp: parse_version_def py_int_def Let_def split: option.splits if_splits sum.splits)

lemma catalog_items_minor_nonneg:
  "catalog_items py entries = Inr items \<Longrightarrow> v \<in> set items \<Longrightarrow> 0 \<le> fst (snd v)"
proof (induction entries arbitrary: items)
  case Nil
  then show ?case by simp
next
  case (Cons e entries)
  obtain name isdir where e: "e = (name, isdir)" by (cases e)
  show ?case
  proof (cases isdir)
    case False
    then show ?thesis using Cons e by simp
  next
    case True
    show ?thesis
    proof (cases "parse_version py name")
      case (Inl err)
      then show ?thesis using Cons.prems e True by simp
    next
      case (Inr r)
      show ?thesis
      proof (cases r)
        case None
        then show ?thesis using Cons e True Inr by simp
      next
        case (Some ver)
        then obtain rest where rest: "catalog_items py entries = Inr rest" "items = ver # rest"
          using Cons.prems e True Inr by (auto split: sum.splits)
        have "0 \<le> fst (snd ver)" using Inr Some parse_version_minor_nonneg by blast
        then show ?thesis using rest Cons.IH[OF rest(1)] Cons.prems(2) by auto
      qed
    qed
  qed
qed

lemma catalog_items_error: "catalog_items py entries = Inl e \<Longrightarrow> e = ValueError"
proof (induction entries)
  case Nil
  then show ?case by simp
next
  case (Cons x entries)
  obtain name isdir where x: "x = (name, isdir)" by (cases x)
  show ?case
    using Cons x parse_version_error[of py name]
    by (auto split: if_splits sum.splits option.splits)
qed

lemma catalog_items_short:
  "\<forall>(name, isdir)\<in>set entries. length name \<le> 4300 \<Longrightarrow> \<exists>items. catalog_items py entries = Inr items"
proof (induction entries)
  case Nil
  then show ?case by simp
next
  case (Cons x entries)
  obtain name isdir where x: "x = (name, isdir)" by (cases x)
  obtain rest where rest: "catalog_items py entries = Inr rest" using Cons by auto
  obtain r where r: "parse_version py name = Inr r"
    using parse_version_short[of name py] Cons.prems x by auto
  show ?case using x rest r by (cases r) simp_all
qed

lemma insort_key_least:
  "\<forall>y\<in>set ys. f x \<le> f y \<Longrightarrow> insort_key f x ys = x # ys"
  by (cases ys) simp_all

lemma sort_key_least_first:
  "\<forall>y\<in>set xs. f x \<le> f y \<Longrightarrow> sort_key f (x # xs) = x # sort_key f xs"
  by (simp add: insort_key_least)

lemma get_versions_sentinel_first:
  assumes "unicode_ok py"
  shows "get_versions py (Some entries) =
           (case catalog_items py entries of
              Inl e \<Rightarrow> Inl e
            | Inr items \<Rightarrow> Inr (sentinel # sort_key (\<lambda>x. fst (snd x)) items))"
proof (cases "catalog_items py entries")
  case (Inl e)
  then show ?thesis by (simp add: get_versions_def parse_sentinel[OF assms])
next
  case (Inr items)
  have "\<forall>y\<in>set items. fst (snd sentinel) \<le> fst (snd y)"
    using catalog_items_minor_nonneg[OF Inr] by (simp add: sentinel_def)
  then have "sort_key (\<lambda>x. fst (snd x)) (sentinel # items)
             = sentinel # sort_key (\<lambda>x. fst (snd x)) items"
    by (rule sort_key_least_first)
  then show ?thesis using Inr by (simp add: get_versions_def parse_sentinel[OF assms])
qed

lemma get_versions_hd:
  assumes "unicode_ok py" and "get_versions py (Some entries) = Inr vs"
  shows "vs \<noteq> [] \<and> hd vs = sentinel"
  using assms(2) unfolding get_versions_sentinel_first[OF assms(1)]
  by (auto split: sum.splits)



lemma select_version_absent:
  "v \<notin> set vs \<Longrightarrow> vs \<noteq> [] \<Longrightarrow> select_version (Some v) vs = Inr (Some (hd vs))"
  by (cases vs) (simp_all add: select_version_def first_version_def)

lemma select_version_None:
  "vs \<noteq> [] \<Longrightarrow> select_version None vs = Inr (Some (hd vs))"
  by (cases vs) (simp_all add: select_version_def first_version_def)



lemmas version_eval =
  lit_def get_versions_def parse_version_def VERSION_RE_match_def strip_final_newline_def
  Let_def is_digit_def digit_val_def py_int_def int_max_str_digits_def py0_def

text \<open>
  Claim C10. When the catalog directory can be listed, \<open>get_versions\<close> returns a
  non-empty list whose first element is the sentinel \<open>(0, 0, 0)\<close>, so that a current
  version that is absent from the list (or is \<open>None\<close>) makes \<open>upgrade_version\<close> choose
  the sentinel itself. It returns whenever no entry name is longer than 4300 characters
  (a file name is at most 255 bytes long); otherwise the only exception is the
  \<open>ValueError\<close> of \<open>int()\<close>.
\<close>

theorem catalog_starts_with_sentinel:
  assumes "unicode_ok py"
  shows "(\<forall>vs. get_versions py (Some entries) = Inr vs \<longrightarrow>
            vs \<noteq> [] \<and> hd vs = sentinel
            \<and> select_version None vs = Inr (Some sentinel)
            \<and> (\<forall>v. v \<notin> set vs \<longrightarrow> select_version (Some v) vs = Inr (Some sentinel)))
       \<and> ((\<forall>(name, isdir)\<in>set entries. length name \<le> 4300) \<longrightarrow>
            (\<exists>vs. get_versions py (Some entries) = Inr vs))
       \<and> (\<forall>e. get_versions py (Some entries) = Inl e \<longrightarrow> e = ValueError)"
proof (intro conjI allI impI)
  fix vs assume g: "get_versions py (Some entries) = Inr vs"
  have h: "vs \<noteq> [] \<and> hd vs = sentinel" by (rule get_versions_hd[OF assms g])
  show "vs \<noteq> []" using h by simp
  show "hd vs = sentinel" using h by simp
  show "select_version None vs = Inr (Some sentinel)"
    using h select_version_None[of vs] by simp
  fix v assume "v \<notin> set vs"
  then show "select_version (Some v) vs = Inr (Some sentinel)"
    using h select_version_absent[of v vs] by simp
next
  assume "\<forall>(name, isdir)\<in>set entries. length name \<le> 4300"
  then obtain items where "catalog_items py entries = Inr items"
    using catalog_items_short[of entries py] by blast
  then show "\<exists>vs. get_versions py (Some entries) = Inr vs"
    by (simp add: get_versions_sentinel_first[OF assms])
next
  fix e assume "get_versions py (Some entries) = Inl e"
  then show "e = ValueError"
    unfolding get_versions_sentinel_first[OF assms]
    using catalog_items_error[of py entries] by (auto split: sum.splits)
qed

theorem catalog_starts_with_sentinel_witness:
  "unicode_ok py0
   \<and> get_versions py0 (Some [(lit ''2.0'', True), (lit ''1.17'', True)])
       = Inr [(0, 0, 0), (2, 0, 0), (1, 17, 0)]
   \<and> hd [(0, 0, 0), (2, 0, 0), (1, 17, 0)] = sentinel
   \<and> select_version (Some (1, 16, 5)) [(0, 0, 0), (2, 0, 0), (1, 17, 0)] = Inr (Some sentinel)"
proof -
  have ok: "unicode_ok py0"
    by (auto simp: unicode_ok_def py0_def ascii_digit_def ascii_alnum_def)
  have g: "get_versions py0 (Some [(lit ''2.0'', True), (lit ''1.17'', True)])
       = Inr [(0, 0, 0), (2, 0, 0), (1, 17, 0)]"
    by (simp add: version_eval)
  show ?thesis
    using ok g catalog_starts_with_sentinel[OF ok, of "[(lit ''2.0'', True), (lit ''1.17'', True)]"]
    by (simp add: sentinel_def)
qed

text \<open>
  Claim C1, at two inputs on which the code does not return the order the claim states.
  \<open>get_versions\<close> sorts by the minor component alone: with the directories \<open>1.16.5\<close> and
  \<open>1.16.1\<close> listed in this order it returns \<open>1.16.5\<close> before \<open>1.16.1\<close>, and with \<open>2.0\<close>
  and \<open>1.17\<close> it returns \<open>2.0.0\<close> before \<open>1.17.0\<close>.
\<close>

theorem catalog_sorted_by_minor_only:
  "get_versions py0 (Some [(lit ''1.16.5'', True), (lit ''1.16.1'', True)])
     = Inr [(0, 0, 0), (1, 16, 5), (1, 16, 1)]
   \<and> \<not> version_le (1, 16, 5) (1, 16, 1)
   \<and> get_versions py0 (Some [(lit ''2.0'', True), (lit ''1.17'', True)])
     = Inr [(0, 0, 0), (2, 0, 0), (1, 17, 0)]
   \<and> \<not> version_le (2, 0, 0) (1, 17, 0)"
  by (simp add: version_eval version_le_def)




section \<open>Properties of the configuration overlay\<close>

lemma is_word_ascii:
  "unicode_ok py \<Longrightarrow> c < 128 \<Longrightarrow> is_word py c = (ascii_alnum c \<or> c = 95)"
  by (simp add: unicode_ok_def is_word_def)

lemmas overlay_eval =
  apply_properties_def flatten_def remap_def remap_difficulty_def remap_gamemode_def
  replace_line_in_file_def read_text_def splitlines_def is_linebreak_def
  compile_word_pattern_def regex_special_def search_def boundary_def word_opt_def first_opt_def
  endswith_newline_def write_text_def os_newlines_def is_surrogate_def replacement_line_def
  ascii_alnum_def ascii_digit_def Let_def lit_def

lemma py_str_int_digit:
  assumes "0 \<le> i" and "i < 10"
  shows "py_str_int i = [48 + nat i]"
proof -
  have n: "nat i < 10" using assms by linarith
  show ?thesis using assms n
    by (simp add: py_str_int_def digits_of.simps[of "nat i"] digit_char_def)
qed

lemma scenario_1_12:
  assumes ok: "unicode_ok py"
  shows "apply_properties py (Some (1, 12, 0))
           (Inr (JDict [(lit ''difficulty'', JLeaf (LStr (lit ''hard''))),
                        (lit ''gamemode'', JLeaf (LStr (lit ''survival'')))]))
           (Content (lit ''difficulty=easy'' @ [10] @ lit ''gamemode=creative'' @ [10]))
         = (Content (os_newlines py (lit ''difficulty=3'' @ [10] @ lit ''gamemode=0'' @ [10])),
            Inr [(lit ''difficulty'', LInt 3), (lit ''gamemode'', LInt 0)])"
  by (simp add: overlay_eval is_word_ascii[OF ok] py_str_int_digit)

lemma scenario_1_16:
  assumes ok: "unicode_ok py"
  shows "apply_properties py (Some (1, 16, 0))
           (Inr (JDict [(lit ''difficulty'', JLeaf (LStr (lit ''hard''))),
                        (lit ''gamemode'', JLeaf (LStr (lit ''survival'')))]))
           (Content (lit ''difficulty=easy'' @ [10] @ lit ''gamemode=creative'' @ [10]))
         = (Content (os_newlines py (lit ''difficulty=hard'' @ [10] @ lit ''gamemode=survival'' @ [10])),
            Inr [(lit ''difficulty'', LStr (lit ''hard'')),
                 (lit ''gamemode'', LStr (lit ''survival''))])"
  by (simp add: overlay_eval is_word_ascii[OF ok])

lemma remap_difficulty_table:
  "remap_difficulty (LStr (lit ''peaceful'')) = LInt 0
   \<and> remap_difficulty (LStr (lit ''easy'')) = LInt 1
   \<and> remap_difficulty (LStr (lit ''normal'')) = LInt 2
   \<and> remap_difficulty (LStr (lit ''hard'')) = LInt 3
   \<and> (v \<notin> {LStr (lit ''peaceful''), LStr (lit ''easy''), LStr (lit ''normal''),
              LStr (lit ''hard'')} \<longrightarrow> remap_difficulty v = v)"
  by (simp add: remap_difficulty_def lit_def)

lemma remap_gamemode_table:
  "remap_gamemode (LStr (lit ''survival'')) = LInt 0
   \<and> remap_gamemode (LStr (lit ''creative'')) = LInt 1
   \<and> remap_gamemode (LStr (lit ''adventure'')) = LInt 2
   \<and> (v \<notin> {LStr (lit ''survival''), LStr (lit ''creative''), LStr (lit ''adventure'')}
        \<longrightarrow> remap_gamemode v = v)"
  by (simp add: remap_gamemode_def lit_def)

lemma keys_differ: "lit ''gamemode'' \<noteq> lit ''difficulty''"
  by (simp add: lit_def)

text \<open>
  Claim C3. For a target version \<open>(ma, mi, pa)\<close>: when \<open>mi < 14\<close> the value of the key
  \<open>difficulty\<close> is mapped from peaceful, easy, normal, hard to 0, 1, 2, 3 and the value of
  the key \<open>gamemode\<close> from survival, creative, adventure to 0, 1, 2, any other value being
  left as it is; when \<open>14 \<le> mi\<close> every value of every key is left as it is; the value of
  any other key is always left as it is. The line written for a key is \<open>key=value\<close>:
  the document \<open>{"difficulty": "hard", "gamemode": "survival"}\<close> gives \<open>difficulty=3\<close> and
  \<open>gamemode=0\<close> at version \<open>(1, 12, 0)\<close>, and \<open>difficulty=hard\<close> and \<open>gamemode=survival\<close> at
  version \<open>(1, 16, 0)\<close>, shown on a file that holds one line for each of the two keys.
\<close>

theorem overlay_remap:
  assumes "unicode_ok py"
  shows "(mi < 14 \<longrightarrow>
            remap (Some (ma, mi, pa)) (lit ''difficulty'') (LStr (lit ''peaceful'')) = Inr (LInt 0)
          \<and> remap (Some (ma, mi, pa)) (lit ''difficulty'') (LStr (lit ''easy'')) = Inr (LInt 1)
          \<and> remap (Some (ma, mi, pa)) (lit ''difficulty'') (LStr (lit ''normal'')) = Inr (LInt 2)
          \<and> remap (Some (ma, mi, pa)) (lit ''difficulty'') (LStr (lit ''hard'')) = Inr (LInt 3)
          \<and> (v \<notin> {LStr (lit ''peaceful''), LStr (lit ''easy''), LStr (lit ''normal''),
                     LStr (lit ''hard'')} \<longrightarrow>
               remap (Some (ma, mi, pa)) (lit ''difficulty'') v = Inr v)
          \<and> remap (Some (ma, mi, pa)) (lit ''gamemode'') (LStr (lit ''survival'')) = Inr (LInt 0)
          \<and> remap (Some (ma, mi, pa)) (lit ''gamemode'') (LStr (lit ''creative'')) = Inr (LInt 1)
          \<and> remap (Some (ma, mi, pa)) (lit ''gamemode'') (LStr (lit ''adventure'')) = Inr (LInt 2)
          \<and> (v \<notin> {LStr (lit ''survival''), LStr (lit ''creative''), LStr (lit ''adventure'')} \<longrightarrow>
               remap (Some (ma, mi, pa)) (lit ''gamemode'') v = Inr v))
       \<and> (14 \<le> mi \<longrightarrow> remap (Some (ma, mi, pa)) key v = Inr v)
       \<and> (key \<noteq> lit ''difficulty'' \<and> key \<noteq> lit ''gamemode'' \<longrightarrow> remap version key v = Inr v)
       \<and> replacement_line py (lit ''difficulty'') (LInt 3) = lit ''difficulty=3''
       \<and> replacement_line py (lit ''gamemode'') (LInt 0) = lit ''gamemode=0''
       \<and> replacement_line py (lit ''difficulty'') (LStr (lit ''hard'')) = lit ''difficulty=hard''
       \<and> replacement_line py (lit ''gamemode'') (LStr (lit ''survival'')) = lit ''gamemode=survival''
       \<and> apply_properties py (Some (1, 12, 0))
           (Inr (JDict [(lit ''difficulty'', JLeaf (LStr (lit ''hard''))),
                        (lit ''gamemode'', JLeaf (LStr (lit ''survival'')))]))
           (Content (lit ''difficulty=easy'' @ [10] @ lit ''gamemode=creative'' @ [10]))
         = (Content (os_newlines py (lit ''difficulty=3'' @ [10] @ lit ''gamemode=0'' @ [10])),
            Inr [(lit ''difficulty'', LInt 3), (lit ''gamemode'', LInt 0)])
       \<and> apply_properties py (Some (1, 16, 0))
           (Inr (JDict [(lit ''difficulty'', JLeaf (LStr (lit ''hard''))),
                        (lit ''gamemode'', JLeaf (LStr (lit ''survival'')))]))
           (Content (lit ''difficulty=easy'' @ [10] @ lit ''gamemode=creative'' @ [10]))
         = (Content (os_newlines py (lit ''difficulty=hard'' @ [10] @ lit ''gamemode=survival'' @ [10])),
            Inr [(lit ''difficulty'', LStr (lit ''hard'')),
                 (lit ''gamemode'', LStr (lit ''survival''))])"
proof -
  have a: "mi < 14 \<Longrightarrow> remap (Some (ma, mi, pa)) (lit ''difficulty'') w = Inr (remap_difficulty w)"
    for w by (simp add: remap_def)
  have b: "mi < 14 \<Longrightarrow> remap (Some (ma, mi, pa)) (lit ''gamemode'') w = Inr (remap_gamemode w)"
    for w using keys_differ by (simp add: remap_def)
  have c: "14 \<le> mi \<Longrightarrow> remap (Some (ma, mi, pa)) key v = Inr v"
    by (simp add: remap_def)
  have d: "key \<noteq> lit ''difficulty'' \<and> key \<noteq> lit ''gamemode'' \<Longrightarrow> remap version key v = Inr v"
    by (simp add: remap_def)
  have r: "replacement_line py (lit ''difficulty'') (LInt 3) = lit ''difficulty=3''"
    "replacement_line py (lit ''gamemode'') (LInt 0) = lit ''gamemode=0''"
    "replacement_line py (lit ''difficulty'') (LStr (lit ''hard'')) = lit ''difficulty=hard''"
    "replacement_line py (lit ''gamemode'') (LStr (lit ''survival'')) = lit ''gamemode=survival''"
    by (simp_all add: replacement_line_def lit_def py_str_int_digit)
  show ?thesis
    apply (intro conjI impI)
    subgoal using a remap_difficulty_table by simp
    subgoal using a remap_difficulty_table by simp
    subgoal using a remap_difficulty_table by simp
    subgoal using a remap_difficulty_table by simp
    subgoal using a remap_difficulty_table[of v] by simp
    subgoal using b remap_gamemode_table by simp
    subgoal using b remap_gamemode_table by simp
    subgoal using b remap_gamemode_table by simp
    subgoal using b remap_gamemode_table[of v] by simp
    subgoal using c by simp
    subgoal using d by simp
    subgoal using r by simp
    subgoal using r by simp
    subgoal using r by simp
    subgoal using r by simp
    subgoal by (rule scenario_1_12[OF assms])
    subgoal by (rule scenario_1_16[OF assms])
    done
qed

theorem overlay_remap_witness:
  "unicode_ok py0
   \<and> remap (Some (1, 12, 0)) (lit ''difficulty'') (LStr (lit ''hard'')) = Inr (LInt 3)
   \<and> remap (Some (1, 12, 0)) (lit ''gamemode'') (LStr (lit ''spectator''))
       = Inr (LStr (lit ''spectator''))
   \<and> remap (Some (1, 16, 0)) (lit ''difficulty'') (LStr (lit ''hard'')) = Inr (LStr (lit ''hard''))
   \<and> remap (Some (1, 12, 0)) (lit ''motd'') (LStr (lit ''hard'')) = Inr (LStr (lit ''hard''))"
proof -
  have ok: "unicode_ok py0"
    by (auto simp: unicode_ok_def py0_def ascii_digit_def ascii_alnum_def)
  have n: "LStr (lit ''spectator'') \<notin> {LStr (lit ''survival''), LStr (lit ''creative''),
             LStr (lit ''adventure'')}"
    by (simp add: lit_def)
  have k: "lit ''motd'' \<noteq> lit ''difficulty'' \<and> lit ''motd'' \<noteq> lit ''gamemode''"
    by (simp add: lit_def)
  have t1: "remap (Some (1, 12, 0)) (lit ''difficulty'') (LStr (lit ''hard'')) = Inr (LInt 3)"
    using overlay_remap[OF ok, where mi = 12 and ma = 1 and pa = 0] by simp
  have t2: "remap (Some (1, 12, 0)) (lit ''gamemode'') (LStr (lit ''spectator''))
       = Inr (LStr (lit ''spectator''))"
    using overlay_remap[OF ok, where mi = 12 and ma = 1 and pa = 0
        and v = "LStr (lit ''spectator'')"] n by simp
  have t3: "remap (Some (1, 16, 0)) (lit ''difficulty'') (LStr (lit ''hard''))
       = Inr (LStr (lit ''hard''))"
    using overlay_remap[OF ok, where mi = 16 and ma = 1 and pa = 0
        and key = "lit ''difficulty''" and v = "LStr (lit ''hard'')"] by simp
  have t4: "remap (Some (1, 12, 0)) (lit ''motd'') (LStr (lit ''hard'')) = Inr (LStr (lit ''hard''))"
    using overlay_remap[OF ok, where key = "lit ''motd''" and version = "Some (1, 12, 0)"
        and v = "LStr (lit ''hard'')"] k
    by simp
  show ?thesis using ok t1 t2 t3 t4 by blast
qed

section \<open>Properties of the version record\<close>

lemma default_record_lines:
  "splitlines False (universal_newlines default_record)
     = [lit ''0.0.0'', lit ''2000-01-01 00:00:00.000000+00:00'']"
  by (simp add: default_record_def lit_def splitlines_def is_linebreak_def chomp_def)

lemma default_record_written:
  "universal_newlines (os_newlines py default_record) = universal_newlines default_record"
  by (simp add: os_newlines_def default_record_def lit_def)

lemma get_version_absent:
  assumes "unicode_ok py"
  shows "get_version py Absent =
           (Content (os_newlines py default_record),
            [Touch (lit ''current.txt''), WriteText (lit ''current.txt'') default_record,
             Print (lit ''Created current.txt to keep track of currently set version'')],
            Inr (Some sentinel))"
  using default_record_lines parse_sentinel[OF assms]
  by (simp add: get_version_def create_version_file_def read_record_def read_text_def
      default_record_written)

lemma get_version_present:
  assumes "f \<noteq> Absent"
  shows "get_version py f =
     (f, [],
      case read_text f of
        Inl e \<Rightarrow> Inl e
      | Inr s \<Rightarrow>
          (case splitlines False s of
             [version_str, ts_str] \<Rightarrow> parse_version py version_str
           | _ \<Rightarrow> Inl ValueError))"
  using assms
  by (cases f) (simp_all add: get_version_def create_version_file_def read_record_def
      split: list.splits sum.splits)

lemma get_version_content:
  "get_version py (Content s) =
     (Content s, [],
      case splitlines False (universal_newlines s) of
        [version_str, ts_str] \<Rightarrow> parse_version py version_str
      | _ \<Rightarrow> Inl ValueError)"
  by (simp add: get_version_present read_text_def)

text \<open>
  Claim C6, as amended. \<open>get_version\<close> raises when the record exists and cannot be read
  or decoded, and raises \<open>ValueError\<close> when its text does not consist of exactly two
  lines. When it has two lines and the first is a version string that \<open>parse_version\<close>
  turns into a tuple, that tuple is returned whatever the second line is: the time stamp
  is examined by \<open>get_update_time\<close> only; when \<open>int()\<close> rejects the first line, its error is
  raised. A record that does not exist is created with the defaults and the sentinel is
  returned.
\<close>

theorem get_version_two_lines:
  assumes "unicode_ok py"
  shows "(f \<noteq> Absent \<and> read_text f = Inl e \<longrightarrow> get_version py f = (f, [], Inl e))
       \<and> (read_text f = Inr s \<and> length (splitlines False s) \<noteq> 2 \<longrightarrow>
            get_version py f = (f, [], Inl ValueError))
       \<and> (read_text f = Inr s \<and> splitlines False s = [version_str, ts_str] \<longrightarrow>
            (\<forall>ver. parse_version py version_str = Inr (Some ver) \<longrightarrow>
                   get_version py f = (f, [], Inr (Some ver)))
          \<and> (\<forall>err. parse_version py version_str = Inl err \<longrightarrow>
                   get_version py f = (f, [], Inl err)))
       \<and> get_version py Absent =
           (Content (os_newlines py default_record),
            [Touch (lit ''current.txt''), WriteText (lit ''current.txt'') default_record,
             Print (lit ''Created current.txt to keep track of currently set version'')],
            Inr (Some sentinel))"
proof (intro conjI impI allI)
  assume "f \<noteq> Absent \<and> read_text f = Inl e"
  then show "get_version py f = (f, [], Inl e)"
    by (simp add: get_version_present)
next
  assume a: "read_text f = Inr s \<and> length (splitlines False s) \<noteq> 2"
  then have p: "f \<noteq> Absent" by (auto simp: read_text_def)
  show "get_version py f = (f, [], Inl ValueError)"
  proof (cases "splitlines False s")
    case Nil
    then show ?thesis using a by (simp add: get_version_present[OF p])
  next
    case (Cons x xs)
    note outer = Cons
    show ?thesis
    proof (cases xs)
      case Nil
      then show ?thesis using outer a by (simp add: get_version_present[OF p])
    next
      case (Cons y ys)
      then have "ys \<noteq> []" using a outer by auto
      then show ?thesis using outer Cons a
        by (cases ys) (simp_all add: get_version_present[OF p])
    qed
  qed
next
  fix ver
  assume a: "read_text f = Inr s \<and> splitlines False s = [version_str, ts_str]"
    and "parse_version py version_str = Inr (Some ver)"
  moreover have "f \<noteq> Absent" using a by (auto simp: read_text_def)
  ultimately show "get_version py f = (f, [], Inr (Some ver))"
    by (simp add: get_version_present)
next
  fix err
  assume a: "read_text f = Inr s \<and> splitlines False s = [version_str, ts_str]"
    and "parse_version py version_str = Inl err"
  moreover have "f \<noteq> Absent" using a by (auto simp: read_text_def)
  ultimately show "get_version py f = (f, [], Inl err)"
    by (simp add: get_version_present)
next
  show "get_version py Absent =
           (Content (os_newlines py default_record),
            [Touch (lit ''current.txt''), WriteText (lit ''current.txt'') default_record,
             Print (lit ''Created current.txt to keep track of currently set version'')],
            Inr (Some sentinel))"
    by (rule get_version_absent[OF assms])
qed

theorem get_version_two_lines_witness:
  "unicode_ok py0
   \<and> Unreadable UnicodeDecodeError \<noteq> Absent
   \<and> read_text (Unreadable UnicodeDecodeError) = Inl UnicodeDecodeError
   \<and> get_version py0 (Unreadable UnicodeDecodeError)
       = (Unreadable UnicodeDecodeError, [], Inl UnicodeDecodeError)
   \<and> read_text (Content (lit ''1.16.5'')) = Inr (lit ''1.16.5'')
   \<and> length (splitlines False (lit ''1.16.5'')) \<noteq> 2
   \<and> get_version py0 (Content (lit ''1.16.5'')) = (Content (lit ''1.16.5''), [], Inl ValueError)
   \<and> read_text (Content default_record) = Inr default_record
   \<and> splitlines False default_record
       = [lit ''0.0.0'', lit ''2000-01-01 00:00:00.000000+00:00'']
   \<and> parse_version py0 (lit ''0.0.0'') = Inr (Some sentinel)
   \<and> get_version py0 (Content default_record) = (Content default_record, [], Inr (Some sentinel))"
proof -
  have ok: "unicode_ok py0"
    by (auto simp: unicode_ok_def py0_def ascii_digit_def ascii_alnum_def)
  have r0: "Unreadable UnicodeDecodeError \<noteq> Absent
            \<and> read_text (Unreadable UnicodeDecodeError) = Inl UnicodeDecodeError"
    by (simp add: read_text_def)
  have r1: "read_text (Content (lit ''1.16.5'')) = Inr (lit ''1.16.5'')"
    by (simp add: read_text_def lit_def)
  have l1: "length (splitlines False (lit ''1.16.5'')) \<noteq> 2"
    by (simp add: lit_def splitlines_def is_linebreak_def chomp_def)
  have r2: "read_text (Content default_record) = Inr default_record"
    by (simp add: read_text_def default_record_def lit_def)
  have l2: "splitlines False default_record
              = [lit ''0.0.0'', lit ''2000-01-01 00:00:00.000000+00:00'']"
    by (simp add: default_record_def lit_def splitlines_def is_linebreak_def chomp_def)
  have p: "parse_version py0 (lit ''0.0.0'') = Inr (Some sentinel)"
    by (rule parse_sentinel[OF ok])
  have t0: "get_version py0 (Unreadable UnicodeDecodeError)
              = (Unreadable UnicodeDecodeError, [], Inl UnicodeDecodeError)"
    using get_version_two_lines[OF ok, where f = "Unreadable UnicodeDecodeError"
        and e = UnicodeDecodeError] r0 by blast
  have t1: "get_version py0 (Content (lit ''1.16.5'')) = (Content (lit ''1.16.5''), [], Inl ValueError)"
    using get_version_two_lines[OF ok, where f = "Content (lit ''1.16.5'')" and s = "lit ''1.16.5''"]
      r1 l1 by blast
  have t2: "get_version py0 (Content default_record)
              = (Content default_record, [], Inr (Some sentinel))"
    using get_version_two_lines[OF ok, where f = "Content default_record" and s = default_record
        and version_str = "lit ''0.0.0''" and ts_str = "lit ''2000-01-01 00:00:00.000000+00:00''"]
      r2 l2 p by blast
  show ?thesis using ok r0 t0 r1 l1 t1 r2 l2 p t2 by blast
qed

theorem get_version_ignores_timestamp_counterexample:
  "get_version py0 (Content (lit ''1.16.5'' @ [10] @ lit ''not a timestamp''))
     = (Content (lit ''1.16.5'' @ [10] @ lit ''not a timestamp''), [], Inr (Some (1, 16, 5)))"
  by (simp add: get_version_content lit_def splitlines_def is_linebreak_def chomp_def
      parse_version_def VERSION_RE_match_def strip_final_newline_def Let_def is_digit_def
      digit_val_def py_int_def int_max_str_digits_def py0_def)

section \<open>Properties of the migration\<close>

lemma index_of_last:
  assumes "xs \<noteq> []" and "last xs = x" and "x \<notin> set (butlast xs)"
  shows "x \<in> set xs \<and> index_of xs x + 1 = length xs"
proof -
  have xs: "xs = butlast xs @ [x]" using assms(1,2) by (metis append_butlast_last_id)
  have "takeWhile (\<lambda>y. y \<noteq> x) (butlast xs @ [x]) = butlast xs"
    using assms(3) by (subst takeWhile_append2) auto
  then have "takeWhile (\<lambda>y. y \<noteq> x) xs = butlast xs" using xs by simp
  then have "index_of xs x = length xs - 1" by (simp add: index_of_def)
  moreover have "x \<in> set xs" using assms(1,2) by auto
  ultimately show ?thesis using assms(1) by (cases xs) auto
qed

lemma select_version_last:
  assumes "versions \<noteq> []" and "last versions = v" and "v \<notin> set (butlast versions)"
  shows "select_version (Some v) versions = Inr None"
  using index_of_last[OF assms] by (simp add: select_version_def)

lemma get_versions_nonempty:
  assumes "get_versions py entries = Inr versions"
  shows "versions \<noteq> []"
proof
  assume e: "versions = []"
  have "sort_key f (x # xs) \<noteq> []" for f :: "version \<Rightarrow> int" and x xs
    by (metis length_sort list.distinct(1) list.size(3) length_0_conv)
  then show False using assms e
    by (auto simp: get_versions_def split: option.splits sum.splits)
qed

lemma get_version_effects:
  assumes "get_version py f = (f', effs, r)"
  shows "(f \<noteq> Absent \<longrightarrow> effs = [] \<and> f' = f)
       \<and> (f = Absent \<longrightarrow>
            effs = [Touch (lit ''current.txt''), WriteText (lit ''current.txt'') default_record,
                    Print (lit ''Created current.txt to keep track of currently set version'')]
            \<and> f' = Content (os_newlines py default_record))"
  using assms by (cases f) (auto simp: get_version_def create_version_file_def)

text \<open>
  Claim C4, as amended. When the current version is the last element of the catalog and
  occurs nowhere before it (in particular when the catalog holds the sentinel alone and
  the current version is the sentinel) and the settings can be read, \<open>upgrade_version\<close>
  prints "No later versions are available!" and returns: nothing is renamed, created or
  copied, the record is not committed and no process is stopped or started. The only
  effects in front of the message are those of \<open>get_version\<close>, which creates the record
  with its defaults when \<open>current.txt\<close> does not exist and does nothing otherwise.
\<close>

theorem last_version_no_upgrade:
  assumes "get_version py (current_txt w) = (f', effs, Inr (Some v))"
    and "get_versions py (servers w) = Inr versions"
    and "get_settings (settings_json w) = Inr settings"
    and "last versions = v"
    and "v \<notin> set (butlast versions)"
  shows "upgrade_version py w server proxy
           = (effs @ [Print (lit ''No later versions are available!'')], None)
       \<and> (current_txt w \<noteq> Absent \<longrightarrow> effs = [])
       \<and> (current_txt w = Absent \<longrightarrow>
            effs = [Touch (lit ''current.txt''), WriteText (lit ''current.txt'') default_record,
                    Print (lit ''Created current.txt to keep track of currently set version'')])"
proof -
  have ne: "versions \<noteq> []" by (rule get_versions_nonempty[OF assms(2)])
  have s: "select_version (Some v) versions = Inr None"
    by (rule select_version_last[OF ne assms(4) assms(5)])
  have "upgrade_version py w server proxy
          = (effs @ [Print (lit ''No later versions are available!'')], None)"
    using assms(1,2,3) s by (simp add: upgrade_version_def)
  then show ?thesis using get_version_effects[OF assms(1)] by blast
qed

lemma digits_16: "py_str_int 16 = lit ''16''"
  by (simp add: py_str_int_def digits_of.simps[of 16] digits_of.simps[of "Suc 0"] digit_char_def lit_def)

lemma version_1_16_0: "version_to_string (1, 16, 0) = lit ''1.16.0''"
  using digits_16 py_str_int_digit[of 1] py_str_int_digit[of 0]
  by (simp add: version_to_string_def lit_def)

theorem last_version_no_upgrade_witness:
  "get_version py0 (current_txt (sample_world (lit ''sunday'')))
     = (Content default_record, [], Inr (Some sentinel))
   \<and> get_versions py0 (servers (sample_world (lit ''sunday''))) = Inr [sentinel]
   \<and> get_settings (settings_json (sample_world (lit ''sunday'')))
       = Inr (flatten (sample_settings (lit ''sunday'')))
   \<and> last [sentinel] = sentinel
   \<and> sentinel \<notin> set (butlast [sentinel])
   \<and> upgrade_version py0 (sample_world (lit ''sunday'')) True True
       = ([Print (lit ''No later versions are available!'')], None)"
proof -
  let ?w = "sample_world (lit ''sunday'')"
  have v: "get_version py0 (current_txt ?w) = (Content default_record, [], Inr (Some sentinel))"
    using default_record_lines parse_sentinel[OF py0_ok]
    by (simp add: sample_world_def get_version_content)
  have g: "get_versions py0 (servers ?w) = Inr [sentinel]"
    using parse_sentinel[OF py0_ok] by (simp add: sample_world_def get_versions_def)
  have st: "get_settings (settings_json ?w) = Inr (flatten (sample_settings (lit ''sunday'')))"
    by (simp add: sample_world_def get_settings_def)
  have l: "last [sentinel] = sentinel" by simp
  have b: "sentinel \<notin> set (butlast [sentinel])" by simp
  have c: "current_txt ?w \<noteq> Absent" by (simp add: sample_world_def)
  have "upgrade_version py0 ?w True True
          = ([Print (lit ''No later versions are available!'')], None)"
    using last_version_no_upgrade[OF v g st l b, of True True] by simp
  then show ?thesis using v g st by simp
qed

theorem duplicate_last_version_counterexample:
  "get_version py0 (current_txt duplicate_world)
     = (current_txt duplicate_world, [], Inr (Some (1, 16, 0)))
   \<and> get_versions py0 (servers duplicate_world) = Inr [(0, 0, 0), (1, 16, 0), (1, 16, 0)]
   \<and> last [(0, 0, 0), (1, 16, 0), (1, 16, 0) :: version] = (1, 16, 0)
   \<and> upgrade_version py0 duplicate_world True True =
       ([Print (lit ''Upgrading to server version 1.16.0...''),
         ProxyStop, ServerStop,
         Rename (lit ''current'') (lit ''old''),
         MakeDirs (lit ''current''),
         CopyTree (lit ''old/world'') (lit ''current/world''),
         CopyFile (lit ''servers/1.16.0/server.jar'') (lit ''current/server.jar''),
         Print (lit ''Generating configuration files''),
         RunJava [lit ''java'', lit ''-Xmx2G'', lit ''-Xms1G'', lit ''-jar'', lit ''server.jar'',
                  lit ''nogui''],
         Print (lit ''Configuration files created''),
         PropertiesFile (Content (lit ''motd=x'')),
         Print (lit ''Applied server properties''),
         WriteText (lit ''current.txt'')
           (lit ''1.16.0'' @ [10] @ lit ''2000-01-09 03:00:00.000000+00:00''),
         Print (lit ''Set current version as 1.16.0!''),
         ServerStart, ProxySetVersion (lit ''1.16.0''), ProxyStart],
        None)"
proof -
  let ?w = duplicate_world
  let ?settings = "flatten (sample_settings (lit ''sunday''))"
  have v: "get_version py0 (current_txt ?w) = (current_txt ?w, [], Inr (Some (1, 16, 0)))"
    by (simp add: duplicate_world_def sample_world_def get_version_content lit_def splitlines_def
      is_linebreak_def chomp_def
      parse_version_def VERSION_RE_match_def strip_final_newline_def Let_def is_digit_def
      digit_val_def py_int_def int_max_str_digits_def py0_def)
  have g: "get_versions py0 (servers ?w) = Inr [(0, 0, 0), (1, 16, 0), (1, 16, 0)]"
    by (simp add: duplicate_world_def sample_world_def version_eval)
  have s: "select_version (Some (1, 16, 0)) [(0, 0, 0), (1, 16, 0), (1, 16, 0)]
             = Inr (Some (1, 16, 0))"
    by (simp add: select_version_def index_of_def)
  have st: "get_settings (settings_json ?w) = Inr ?settings"
    by (simp add: duplicate_world_def sample_world_def get_settings_def)
  have d: "dict_get ?settings (lit ''java-Xmx'') = Inr (LStr (lit ''2G''))
         \<and> dict_get ?settings (lit ''java-Xms'') = Inr (LStr (lit ''1G''))
         \<and> dict_get ?settings (lit ''discord_webhook_url'') = Inr (LStr [])"
    by (simp add: sample_settings_def flatten_def lit_def)
  have dm: "discord_message py0 ?w message = ([], None)" for message
    by (simp add: discord_message_def st d)
  have ap: "apply_properties py0 (Some (1, 16, 0)) (properties_json ?w) (server_properties ?w)
              = (Content (lit ''motd=x''), Inr [])"
    by (simp add: duplicate_world_def sample_world_def apply_properties_def flatten_def)
  have ws: "record_write_error ?w = None \<and> server_start_error ?w = None
          \<and> proxy_start_error ?w = None \<and> proxy_stop_error ?w = None
          \<and> server_stop_error ?w = None \<and> rename_current ?w = RenameOk
          \<and> makedirs_error ?w = None \<and> copytree_ok ?w \<and> copy_jar ?w = None
          \<and> eula_exists ?w \<and> java_run ?w = RunTimeoutExpired
          \<and> utc_now_str ?w = lit ''2000-01-09 03:00:00.000000+00:00''"
    by (simp add: duplicate_world_def sample_world_def)
  have f: "finish_upgrade py0 ?w True True (1, 16, 0) =
       ([PropertiesFile (Content (lit ''motd=x'')),
         Print (lit ''Applied server properties''),
         WriteText (lit ''current.txt'')
           (lit ''1.16.0'' @ [10] @ lit ''2000-01-09 03:00:00.000000+00:00''),
         Print (lit ''Set current version as 1.16.0!''),
         ServerStart, ProxySetVersion (lit ''1.16.0''), ProxyStart],
        None)"
    unfolding finish_upgrade_def version_1_16_0
    by (simp add: dm ap ws then_do_def call_def call_if_def Let_def lit_def)
  have m: "migrate py0 ?w True True ?settings (1, 16, 0) =
       ([Print (lit ''Upgrading to server version 1.16.0...''),
         ProxyStop, ServerStop,
         Rename (lit ''current'') (lit ''old''),
         MakeDirs (lit ''current''),
         CopyTree (lit ''old/world'') (lit ''current/world''),
         CopyFile (lit ''servers/1.16.0/server.jar'') (lit ''current/server.jar''),
         Print (lit ''Generating configuration files''),
         RunJava [lit ''java'', lit ''-Xmx2G'', lit ''-Xms1G'', lit ''-jar'', lit ''server.jar'',
                  lit ''nogui''],
         Print (lit ''Configuration files created'')]
        @ [PropertiesFile (Content (lit ''motd=x'')),
         Print (lit ''Applied server properties''),
         WriteText (lit ''current.txt'')
           (lit ''1.16.0'' @ [10] @ lit ''2000-01-09 03:00:00.000000+00:00''),
         Print (lit ''Set current version as 1.16.0!''),
         ServerStart, ProxySetVersion (lit ''1.16.0''), ProxyStart],
        None)"
    unfolding migrate_def setup_server_def generate_files_def f version_1_16_0
    apply (simp add: d ws then_do_def call_def call_if_def Let_def)
    apply (simp add: lit_def)
    done
  have u: "upgrade_version py0 ?w True True = migrate py0 ?w True True ?settings (1, 16, 0)"
    by (simp add: upgrade_version_def v g st s then_do_def)
  show ?thesis using v g u m by simp
qed

section \<open>Properties of the gate\<close>

lemma not_yet_due_aware:
  assumes "utcoffset update_time = Some off"
    and "dict_get settings (lit ''update_frequency_days'') = Inr days"
    and "timedelta_days py days = Inr delta"
    and "min_wall \<le> micros update_time + delta + off"
    and "micros update_time + delta + off \<le> max_wall"
  shows "not_yet_due py settings update_time clk
           = Inr (\<not> delta \<le> now_micros clk - micros update_time)"
proof -
  have a: "datetime_add update_time delta
             = Inr (update_time\<lparr>micros := micros update_time + delta\<rparr>)"
    using assms(1,4,5) by (simp add: datetime_add_def)
  have l: "later_than_now (update_time\<lparr>micros := micros update_time + delta\<rparr>) (now_micros clk)
             = Inr (micros update_time + delta > now_micros clk)"
    using assms(1) by (simp add: later_than_now_def)
  have "(micros update_time + delta > now_micros clk)
          = (\<not> delta \<le> now_micros clk - micros update_time)" by linarith
  then show ?thesis using assms(2,3) a l by (simp add: not_yet_due_def)
qed

lemma gates_aware:
  assumes "utcoffset update_time = Some off"
    and "dict_get settings (lit ''update_frequency_days'') = Inr days"
    and "timedelta_days py days = Inr delta"
    and "min_wall \<le> micros update_time + delta + off"
    and "micros update_time + delta + off \<le> max_wall"
    and "dict_get settings (lit ''update_weekday'') = Inr weekday"
    and "dict_get settings (lit ''update_time_utc'') = Inr hour"
  shows "gates py settings update_time clk
           = Inr (delta \<le> now_micros clk - micros update_time
                  \<and> today_weekday clk = target_weekday weekday
                  \<and> \<not> differs_from_int py hour (now_hour clk))"
  using assms(6,7)
  by (auto simp: gates_def not_yet_due_aware[OF assms(1-5)] wrong_weekday_def wrong_hour_def
      split: bool.splits)

lemma target_weekday_names:
  "target_weekday (LStr (lit ''monday'')) = 0
   \<and> target_weekday (LStr (lit ''tuesday'')) = 1
   \<and> target_weekday (LStr (lit ''wednesday'')) = 2
   \<and> target_weekday (LStr (lit ''thursday'')) = 3
   \<and> target_weekday (LStr (lit ''friday'')) = 4
   \<and> target_weekday (LStr (lit ''saturday'')) = 5
   \<and> target_weekday (LStr (lit ''sunday'')) = 6"
  by (simp add: target_weekday_def lit_def)

lemma target_weekday_other:
  assumes "weekday \<notin> LStr ` {lit ''monday'', lit ''tuesday'', lit ''wednesday'', lit ''thursday'',
                              lit ''friday'', lit ''saturday'', lit ''sunday''}"
  shows "target_weekday weekday = 0"
  using assms by (simp add: target_weekday_def)

lemma py1_ok: "unicode_ok py1"
  using py0_ok by (simp add: py1_def unicode_ok_def)

lemma sample_settings_gate:
  "get_settings (settings_json (sample_world weekday)) = Inr (flatten (sample_settings weekday))
   \<and> dict_get (flatten (sample_settings weekday)) (lit ''update_frequency_days'') = Inr (LInt 7)
   \<and> dict_get (flatten (sample_settings weekday)) (lit ''update_weekday'') = Inr (LStr weekday)
   \<and> dict_get (flatten (sample_settings weekday)) (lit ''update_time_utc'') = Inr (LInt 3)"
  by (simp add: sample_world_def get_settings_def sample_settings_def flatten_def lit_def)

lemma sample_update_time:
  "get_update_time py1 (current_txt (sample_world weekday))
     = (Content default_record, [],
        Inr \<lparr> micros = 946684800000000, utcoffset = Some 0 \<rparr>)"
  using default_record_lines
  by (simp add: sample_world_def get_update_time_def create_version_file_def read_record_def
      read_text_def py1_def)

lemma sample_world_no_upgrade:
  "upgrade_version py1 (sample_world weekday) True proxy
     = ([Print (lit ''No later versions are available!'')], None)"
proof -
  let ?w = "sample_world weekday"
  have v: "get_version py1 (current_txt ?w) = (Content default_record, [], Inr (Some sentinel))"
    using default_record_lines parse_sentinel[OF py1_ok]
    by (simp add: sample_world_def get_version_content)
  have g: "get_versions py1 (servers ?w) = Inr [sentinel]"
    using parse_sentinel[OF py1_ok] by (simp add: sample_world_def get_versions_def)
  have s: "select_version (Some sentinel) [sentinel] = Inr None"
    by (rule select_version_last) simp_all
  show ?thesis using sample_settings_gate[of weekday]
    by (simp add: upgrade_version_def v g s)
qed

lemma sample_world_current:
  "(sample_world weekday)\<lparr>current_txt := Content default_record\<rparr> = sample_world weekday"
  by (simp add: sample_world_def)

text \<open>
  Claim C5, as amended. Let the settings be readable and hold the three keys, let the
  record give an aware time stamp, and let the time stamp plus \<open>update_frequency_days\<close>
  be a date that exists. Then \<open>check_updates\<close> calls \<open>upgrade_version\<close> exactly when all
  three hold: the time elapsed since the time stamp is at least \<open>update_frequency_days\<close>,
  the weekday of the local date is the target weekday, and the UTC hour equals
  \<open>update_time_utc\<close>; otherwise it returns without calling it. The target weekday is the
  one that \<open>update_weekday\<close> names when it is one of the lower-case names \<open>monday\<close> to
  \<open>sunday\<close>, and Monday for every other value. In particular, with
  \<open>update_frequency_days\<close> 7 and less than 7 days elapsed, \<open>upgrade_version\<close> is not called
  whatever the weekday and the hour are.
\<close>

theorem check_updates_gate:
  assumes "get_settings (settings_json w) = Inr settings"
    and "get_update_time py (current_txt w) = (f', effs, Inr update_time)"
    and "utcoffset update_time = Some off"
    and "dict_get settings (lit ''update_frequency_days'') = Inr days"
    and "timedelta_days py days = Inr delta"
    and "min_wall \<le> micros update_time + delta + off"
    and "micros update_time + delta + off \<le> max_wall"
    and "dict_get settings (lit ''update_weekday'') = Inr weekday"
    and "dict_get settings (lit ''update_time_utc'') = Inr hour"
  shows "check_updates py clk w proxy =
           (effs, if delta \<le> now_micros clk - micros update_time
                     \<and> today_weekday clk = target_weekday weekday
                     \<and> \<not> differs_from_int py hour (now_hour clk)
                  then Upgraded (upgrade_version py (w\<lparr>current_txt := f'\<rparr>) True proxy)
                  else NotDue)
       \<and> (\<forall>d. days = LInt d \<longrightarrow>
              delta = d * day_micros
              \<and> (delta \<le> now_micros clk - micros update_time) = elapsed_enough update_time d clk)
       \<and> (\<forall>h. hour = LInt h \<longrightarrow> differs_from_int py hour (now_hour clk) = (now_hour clk \<noteq> h))
       \<and> target_weekday (LStr (lit ''monday'')) = 0
       \<and> target_weekday (LStr (lit ''tuesday'')) = 1
       \<and> target_weekday (LStr (lit ''wednesday'')) = 2
       \<and> target_weekday (LStr (lit ''thursday'')) = 3
       \<and> target_weekday (LStr (lit ''friday'')) = 4
       \<and> target_weekday (LStr (lit ''saturday'')) = 5
       \<and> target_weekday (LStr (lit ''sunday'')) = 6
       \<and> (weekday \<notin> LStr ` {lit ''monday'', lit ''tuesday'', lit ''wednesday'', lit ''thursday'',
                              lit ''friday'', lit ''saturday'', lit ''sunday''}
            \<longrightarrow> target_weekday weekday = 0)
       \<and> (days = LInt 7 \<and> now_micros clk - micros update_time < 7 * day_micros \<longrightarrow>
            check_updates py clk w proxy = (effs, NotDue))"
proof -
  have g: "gates py settings update_time clk
             = Inr (delta \<le> now_micros clk - micros update_time
                    \<and> today_weekday clk = target_weekday weekday
                    \<and> \<not> differs_from_int py hour (now_hour clk))"
    by (rule gates_aware[OF assms(3-9)])
  have c: "check_updates py clk w proxy =
           (effs, if delta \<le> now_micros clk - micros update_time
                     \<and> today_weekday clk = target_weekday weekday
                     \<and> \<not> differs_from_int py hour (now_hour clk)
                  then Upgraded (upgrade_version py (w\<lparr>current_txt := f'\<rparr>) True proxy)
                  else NotDue)"
    using assms(1,2) by (auto simp: check_updates_def g split: bool.splits)
  have d: "\<forall>d. days = LInt d \<longrightarrow>
              delta = d * day_micros
              \<and> (delta \<le> now_micros clk - micros update_time) = elapsed_enough update_time d clk"
    using assms(5) by (auto simp: timedelta_days_def elapsed_enough_def split: if_splits)
  have h: "\<forall>h. hour = LInt h \<longrightarrow> differs_from_int py hour (now_hour clk) = (now_hour clk \<noteq> h)"
    by (auto simp: differs_from_int_def)
  have s: "days = LInt 7 \<and> now_micros clk - micros update_time < 7 * day_micros \<longrightarrow>
            check_updates py clk w proxy = (effs, NotDue)"
  proof
    assume a: "days = LInt 7 \<and> now_micros clk - micros update_time < 7 * day_micros"
    then have "delta = 7 * day_micros" using d by simp
    then have "\<not> delta \<le> now_micros clk - micros update_time" using a by simp
    then show "check_updates py clk w proxy = (effs, NotDue)" using c by simp
  qed
  show ?thesis
    using c d h s target_weekday_names target_weekday_other[of weekday] by blast
qed

theorem check_updates_gate_witness:
  "get_settings (settings_json (sample_world (lit ''sunday'')))
     = Inr (flatten (sample_settings (lit ''sunday'')))
   \<and> get_update_time py1 (current_txt (sample_world (lit ''sunday'')))
       = (Content default_record, [], Inr \<lparr> micros = 946684800000000, utcoffset = Some 0 \<rparr>)
   \<and> dict_get (flatten (sample_settings (lit ''sunday''))) (lit ''update_frequency_days'')
       = Inr (LInt 7)
   \<and> timedelta_days py1 (LInt 7) = Inr 604800000000
   \<and> min_wall \<le> 946684800000000 + 604800000000 + 0
   \<and> 946684800000000 + 604800000000 + 0 \<le> max_wall
   \<and> dict_get (flatten (sample_settings (lit ''sunday''))) (lit ''update_weekday'')
       = Inr (LStr (lit ''sunday''))
   \<and> dict_get (flatten (sample_settings (lit ''sunday''))) (lit ''update_time_utc'')
       = Inr (LInt 3)
   \<and> check_updates py1 sunday_clock (sample_world (lit ''sunday'')) True
       = ([], Upgraded (upgrade_version py1 (sample_world (lit ''sunday'')) True True))
   \<and> check_updates py1 monday_clock (sample_world (lit ''sunday'')) True = ([], NotDue)"
proof -
  let ?w = "sample_world (lit ''sunday'')"
  let ?s = "flatten (sample_settings (lit ''sunday''))"
  let ?t = "\<lparr> micros = 946684800000000, utcoffset = Some 0 \<rparr>"
  note s = sample_settings_gate[of "lit ''sunday''"]
  have s1: "get_settings (settings_json ?w) = Inr ?s" using s by blast
  have s2: "dict_get ?s (lit ''update_frequency_days'') = Inr (LInt 7)" using s by blast
  have s3: "dict_get ?s (lit ''update_weekday'') = Inr (LStr (lit ''sunday''))" using s by blast
  have s4: "dict_get ?s (lit ''update_time_utc'') = Inr (LInt 3)" using s by blast
  have u: "get_update_time py1 (current_txt ?w) = (Content default_record, [], Inr ?t)"
    by (rule sample_update_time)
  have o: "utcoffset ?t = Some 0" by simp
  have t: "timedelta_days py1 (LInt 7) = Inr 604800000000"
    by (simp add: timedelta_days_def day_micros_def)
  have r1: "min_wall \<le> micros ?t + 604800000000 + 0" by (simp add: min_wall_def)
  have r2: "micros ?t + 604800000000 + 0 \<le> max_wall" by (simp add: max_wall_def)
  note inst = check_updates_gate[OF s1 u o s2 t r1 r2 s3 s4, where proxy = True]
  have c1: "check_updates py1 sunday_clock ?w True
              = ([], Upgraded (upgrade_version py1 ?w True True))"
    using inst[of sunday_clock]
    by (simp add: sunday_clock_def differs_from_int_def sample_world_current)
  have c2: "check_updates py1 monday_clock ?w True = ([], NotDue)"
    using inst[of monday_clock]
    by (simp add: monday_clock_def differs_from_int_def)
  show ?thesis using s1 u s2 t r1 r2 s3 s4 c1 c2 by simp
qed

theorem capitalised_weekday_counterexample:
  "dict_get (flatten (sample_settings (lit ''Sunday''))) (lit ''update_weekday'')
     = Inr (LStr (lit ''Sunday''))
   \<and> 7 * day_micros \<le> now_micros sunday_clock - 946684800000000
   \<and> today_weekday sunday_clock = 6
   \<and> now_hour sunday_clock = 3
   \<and> check_updates py1 sunday_clock (sample_world (lit ''Sunday'')) True = ([], NotDue)
   \<and> today_weekday monday_clock = 0
   \<and> check_updates py1 monday_clock (sample_world (lit ''Sunday'')) True
       = ([], Upgraded ([Print (lit ''No later versions are available!'')], None))"
proof -
  let ?w = "sample_world (lit ''Sunday'')"
  let ?s = "flatten (sample_settings (lit ''Sunday''))"
  let ?t = "\<lparr> micros = 946684800000000, utcoffset = Some 0 \<rparr>"
  note s = sample_settings_gate[of "lit ''Sunday''"]
  have s2: "dict_get ?s (lit ''update_frequency_days'') = Inr (LInt 7)" using s by blast
  have s3: "dict_get ?s (lit ''update_weekday'') = Inr (LStr (lit ''Sunday''))" using s by blast
  have s4: "dict_get ?s (lit ''update_time_utc'') = Inr (LInt 3)" using s by blast
  have o: "utcoffset ?t = Some 0" by simp
  have t: "timedelta_days py1 (LInt 7) = Inr 604800000000"
    by (simp add: timedelta_days_def day_micros_def)
  have r1: "min_wall \<le> micros ?t + 604800000000 + 0" by (simp add: min_wall_def)
  have r2: "micros ?t + 604800000000 + 0 \<le> max_wall" by (simp add: max_wall_def)
  have w: "target_weekday (LStr (lit ''Sunday'')) = 0"
    by (simp add: target_weekday_def lit_def)
  have g: "gates py1 ?s ?t clk
             = Inr (604800000000 \<le> now_micros clk - 946684800000000
                    \<and> today_weekday clk = 0 \<and> now_hour clk = 3)" for clk
    using gates_aware[OF o s2 t r1 r2 s3 s4, of clk] by (auto simp: w differs_from_int_def)
  have c1: "check_updates py1 sunday_clock ?w True = ([], NotDue)"
    using s by (auto simp: check_updates_def sample_update_time g sunday_clock_def split: bool.splits)
  have c2: "check_updates py1 monday_clock ?w True
              = ([], Upgraded ([Print (lit ''No later versions are available!'')], None))"
    using s by (auto simp: check_updates_def sample_update_time g monday_clock_def
        sample_world_current sample_world_no_upgrade split: bool.splits)
  show ?thesis using s3 c1 c2 by (simp add: sunday_clock_def monday_clock_def day_micros_def)
qed

section \<open>Properties of the supervised processes\<close>

lemma stop_process_None: "stop_process env timeout None = Returns []"
  by (simp add: stop_process_def)

lemma join_thread_None: "join_thread env timeout None = Returns []"
  by (simp add: join_thread_def)

lemma stop_process_dead:
  "\<forall>h. p = Some h \<longrightarrow> \<not> poll_is_none env h \<Longrightarrow> stop_process env timeout p = Returns []"
  by (cases p) (simp_all add: stop_process_def)

lemma join_thread_dead:
  "\<forall>th. t = Some th \<longrightarrow> join env th timeout = Joined \<Longrightarrow>
   \<exists>evs. join_thread env timeout t = Returns evs"
  by (cases t) (simp_all add: join_thread_def)

lemma JavaServer_stop_returns:
  assumes "JavaServer_stop env timeout self = Returns (self', evs)"
  shows "self' = \<lparr>js_stop_event = False, js_proc = None, js_thread = None\<rparr>"
  using assms
  by (auto simp: JavaServer_stop_def Let_def split: outcome.splits)

lemma ProxyServer_stop_returns:
  assumes "ProxyServer_stop env timeout self = Returns (self', evs)"
  shows "self' = \<lparr>px_version = px_version self, px_stop_event = False, px_proc = None,
                   px_thread = None\<rparr>"
  using assms
  by (auto simp: ProxyServer_stop_def Let_def split: outcome.splits)

lemma JavaServer_stop_stopped:
  "JavaServer_stop env timeout \<lparr>js_stop_event = False, js_proc = None, js_thread = None\<rparr>
     = Returns (\<lparr>js_stop_event = False, js_proc = None, js_thread = None\<rparr>,
                [Log (lit ''Stopping Java server '' @ [8230])])"
  by (simp add: JavaServer_stop_def stop_process_None join_thread_None)

lemma ProxyServer_stop_stopped:
  "ProxyServer_stop env timeout
     \<lparr>px_version = v, px_stop_event = False, px_proc = None, px_thread = None\<rparr>
     = Returns (\<lparr>px_version = v, px_stop_event = False, px_proc = None, px_thread = None\<rparr>,
                [Log (lit ''Stopping Proxy server '' @ [8230])])"
  by (simp add: ProxyServer_stop_def stop_process_None join_thread_None)

lemma JavaServer_start_stopped:
  "JavaServer_start env fresh \<lparr>js_stop_event = False, js_proc = None, js_thread = None\<rparr>
     = (case start_error env fresh of
          Some e \<Rightarrow> Raises e (\<lparr>js_stop_event = False, js_proc = None, js_thread = Some fresh\<rparr>, [])
        | None \<Rightarrow> Returns (\<lparr>js_stop_event = False, js_proc = None, js_thread = Some fresh\<rparr>,
                           [StartThread fresh, Log (lit ''JavaServer thread started'')]))"
  by (simp add: JavaServer_start_def thread_running_def split: option.splits)

lemma ProxyServer_start_stopped:
  "ProxyServer_start env fresh
     \<lparr>px_version = v, px_stop_event = False, px_proc = None, px_thread = None\<rparr>
     = (case start_error env fresh of
          Some e \<Rightarrow> Raises e (\<lparr>px_version = v, px_stop_event = False, px_proc = None,
                                px_thread = Some fresh\<rparr>, [])
        | None \<Rightarrow> Returns (\<lparr>px_version = v, px_stop_event = False, px_proc = None,
                             px_thread = Some fresh\<rparr>,
                           [StartThread fresh, Log (lit ''ProxyServer thread started'')]))"
  by (simp add: ProxyServer_start_def thread_running_def split: option.splits)

lemma JavaServer_stop_raises:
  assumes "JavaServer_stop env timeout self = Raises e (self', evs)"
  shows "self' = self\<lparr>js_stop_event := True\<rparr>"
  using assms
  by (auto simp: JavaServer_stop_def Let_def split: outcome.splits)

lemma ProxyServer_stop_raises:
  assumes "ProxyServer_stop env timeout self = Raises e (self', evs)"
  shows "self' = self\<lparr>px_stop_event := True\<rparr>"
  using assms
  by (auto simp: ProxyServer_stop_def Let_def split: outcome.splits)

text \<open>
  Claim C8, as amended. Whenever \<open>stop\<close> returns, of a \<open>JavaServer\<close> or of a
  \<open>ProxyServer\<close>, it leaves the handle \<open>None\<close>, the worker \<open>None\<close> and the stop event
  cleared. A second \<open>stop\<close> on that state returns as well, whatever the operating system
  answers and whatever the timeout is: it only logs its first message and leaves the
  state as it is. A \<open>start\<close> on that state does not take the branch "already running":
  it creates the fresh worker, stores it and, unless \<open>Thread.start\<close> itself raises, starts
  it. More generally \<open>stop\<close> returns from any state whose process, if there is one, has
  exited and whose worker, if there is one, can be joined. A \<open>stop\<close> that raises leaves
  the stop event set and the handle and the worker in place. The functions are \<open>stop\<close>
  and \<open>start\<close> as the calling thread runs them; what a worker that is still alive does to
  the attributes meanwhile is not part of the statement.
\<close>

theorem stop_idempotent:
  "(JavaServer_stop env timeout self = Returns (self', evs) \<longrightarrow>
      js_proc self' = None \<and> js_thread self' = None \<and> \<not> js_stop_event self'
      \<and> JavaServer_stop env' timeout' self'
          = Returns (self', [Log (lit ''Stopping Java server '' @ [8230])])
      \<and> JavaServer_start env' fresh self'
          = (case start_error env' fresh of
               Some e \<Rightarrow> Raises e (self'\<lparr>js_thread := Some fresh\<rparr>, [])
             | None \<Rightarrow> Returns (self'\<lparr>js_thread := Some fresh\<rparr>,
                                [StartThread fresh, Log (lit ''JavaServer thread started'')])))
   \<and> (ProxyServer_stop env timeout pself = Returns (pself', pevs) \<longrightarrow>
      px_proc pself' = None \<and> px_thread pself' = None \<and> \<not> px_stop_event pself'
      \<and> px_version pself' = px_version pself
      \<and> ProxyServer_stop env' timeout' pself'
          = Returns (pself', [Log (lit ''Stopping Proxy server '' @ [8230])])
      \<and> ProxyServer_start env' fresh pself'
          = (case start_error env' fresh of
               Some e \<Rightarrow> Raises e (pself'\<lparr>px_thread := Some fresh\<rparr>, [])
             | None \<Rightarrow> Returns (pself'\<lparr>px_thread := Some fresh\<rparr>,
                                [StartThread fresh, Log (lit ''ProxyServer thread started'')])))
   \<and> (JavaServer_stop env timeout self = Raises e (self', evs) \<longrightarrow>
        self' = self\<lparr>js_stop_event := True\<rparr>)
   \<and> (ProxyServer_stop env timeout pself = Raises e (pself', pevs) \<longrightarrow>
        pself' = pself\<lparr>px_stop_event := True\<rparr>)
   \<and> ((\<forall>h. js_proc self = Some h \<longrightarrow> \<not> poll_is_none env h)
       \<and> (\<forall>th. js_thread self = Some th \<longrightarrow> join env th timeout = Joined) \<longrightarrow>
       (\<exists>evs. JavaServer_stop env timeout self
                = Returns (\<lparr>js_stop_event = False, js_proc = None, js_thread = None\<rparr>, evs)))
   \<and> ((\<forall>h. px_proc pself = Some h \<longrightarrow> \<not> poll_is_none env h)
       \<and> (\<forall>th. px_thread pself = Some th \<longrightarrow> join env th timeout = Joined) \<longrightarrow>
       (\<exists>evs. ProxyServer_stop env timeout pself
                = Returns (\<lparr>px_version = px_version pself, px_stop_event = False,
                           px_proc = None, px_thread = None\<rparr>, evs)))"
proof (intro conjI impI)
  assume a: "JavaServer_stop env timeout self = Returns (self', evs)"
  note s = JavaServer_stop_returns[OF a]
  show "js_proc self' = None" "js_thread self' = None" "\<not> js_stop_event self'"
    by (simp_all add: s)
  show "JavaServer_stop env' timeout' self'
          = Returns (self', [Log (lit ''Stopping Java server '' @ [8230])])"
    unfolding s by (rule JavaServer_stop_stopped)
  show "JavaServer_start env' fresh self'
          = (case start_error env' fresh of
               Some e \<Rightarrow> Raises e (self'\<lparr>js_thread := Some fresh\<rparr>, [])
             | None \<Rightarrow> Returns (self'\<lparr>js_thread := Some fresh\<rparr>,
                                [StartThread fresh, Log (lit ''JavaServer thread started'')]))"
    unfolding s by (simp add: JavaServer_start_stopped split: option.splits)
next
  assume a: "ProxyServer_stop env timeout pself = Returns (pself', pevs)"
  note s = ProxyServer_stop_returns[OF a]
  show "px_proc pself' = None" "px_thread pself' = None" "\<not> px_stop_event pself'"
    "px_version pself' = px_version pself"
    by (simp_all add: s)
  show "ProxyServer_stop env' timeout' pself'
          = Returns (pself', [Log (lit ''Stopping Proxy server '' @ [8230])])"
    unfolding s by (rule ProxyServer_stop_stopped)
  show "ProxyServer_start env' fresh pself'
          = (case start_error env' fresh of
               Some e \<Rightarrow> Raises e (pself'\<lparr>px_thread := Some fresh\<rparr>, [])
             | None \<Rightarrow> Returns (pself'\<lparr>px_thread := Some fresh\<rparr>,
                                [StartThread fresh, Log (lit ''ProxyServer thread started'')]))"
    unfolding s by (simp add: ProxyServer_start_stopped split: option.splits)
next
  assume "JavaServer_stop env timeout self = Raises e (self', evs)"
  then show "self' = self\<lparr>js_stop_event := True\<rparr>" by (rule JavaServer_stop_raises)
next
  assume "ProxyServer_stop env timeout pself = Raises e (pself', pevs)"
  then show "pself' = pself\<lparr>px_stop_event := True\<rparr>" by (rule ProxyServer_stop_raises)
next
  assume a: "(\<forall>h. js_proc self = Some h \<longrightarrow> \<not> poll_is_none env h)
       \<and> (\<forall>th. js_thread self = Some th \<longrightarrow> join env th timeout = Joined)"
  have p: "stop_process env timeout (js_proc self) = Returns []"
    using a by (intro stop_process_dead) blast
  obtain ev2 where j: "join_thread env timeout (js_thread self) = Returns ev2"
    using join_thread_dead[of "js_thread self" env timeout] a by blast
  show "\<exists>evs. JavaServer_stop env timeout self
                = Returns (\<lparr>js_stop_event = False, js_proc = None, js_thread = None\<rparr>, evs)"
    by (simp add: JavaServer_stop_def p j)
next
  assume a: "(\<forall>h. px_proc pself = Some h \<longrightarrow> \<not> poll_is_none env h)
       \<and> (\<forall>th. px_thread pself = Some th \<longrightarrow> join env th timeout = Joined)"
  have p: "stop_process env timeout (px_proc pself) = Returns []"
    using a by (intro stop_process_dead) blast
  obtain ev2 where j: "join_thread env timeout (px_thread pself) = Returns ev2"
    using join_thread_dead[of "px_thread pself" env timeout] a by blast
  show "\<exists>evs. ProxyServer_stop env timeout pself
                = Returns (\<lparr>px_version = px_version pself, px_stop_event = False,
                           px_proc = None, px_thread = None\<rparr>, evs)"
    by (simp add: ProxyServer_stop_def p j)
qed

theorem stop_idempotent_witness:
  "JavaServer_stop sample_os None \<lparr>js_stop_event = False, js_proc = Some 1, js_thread = Some 2\<rparr>
     = Returns (\<lparr>js_stop_event = False, js_proc = None, js_thread = None\<rparr>,
                [Log (lit ''Stopping Java server '' @ [8230]),
                 Log (lit ''Terminating JVM '' @ [8230]), Terminate 1,
                 Log (lit ''JVM exited gracefully''), Join 2,
                 Log (lit ''Thread finished cleanly'')])
   \<and> JavaServer_stop sample_os None \<lparr>js_stop_event = False, js_proc = None, js_thread = None\<rparr>
     = Returns (\<lparr>js_stop_event = False, js_proc = None, js_thread = None\<rparr>,
                [Log (lit ''Stopping Java server '' @ [8230])])
   \<and> JavaServer_start sample_os 3 \<lparr>js_stop_event = False, js_proc = None, js_thread = None\<rparr>
     = Returns (\<lparr>js_stop_event = False, js_proc = None, js_thread = Some 3\<rparr>,
                [StartThread 3, Log (lit ''JavaServer thread started'')])
   \<and> ProxyServer_stop sample_os None
       \<lparr>px_version = lit ''1.16.0'', px_stop_event = False, px_proc = Some 4, px_thread = Some 5\<rparr>
     = Returns (\<lparr>px_version = lit ''1.16.0'', px_stop_event = False, px_proc = None,
                 px_thread = None\<rparr>,
                [Log (lit ''Stopping Proxy server '' @ [8230]),
                 Log (lit ''Terminating JVM '' @ [8230]), Terminate 4,
                 Log (lit ''JVM exited gracefully''), Join 5,
                 Log (lit ''Thread finished cleanly'')])
   \<and> ProxyServer_stop sample_os None
       \<lparr>px_version = lit ''1.16.0'', px_stop_event = False, px_proc = None, px_thread = None\<rparr>
     = Returns (\<lparr>px_version = lit ''1.16.0'', px_stop_event = False, px_proc = None,
                 px_thread = None\<rparr>,
                [Log (lit ''Stopping Proxy server '' @ [8230])])
   \<and> ProxyServer_start sample_os 3
       \<lparr>px_version = lit ''1.16.0'', px_stop_event = False, px_proc = None, px_thread = None\<rparr>
     = Returns (\<lparr>px_version = lit ''1.16.0'', px_stop_event = False, px_proc = None,
                 px_thread = Some 3\<rparr>,
                [StartThread 3, Log (lit ''ProxyServer thread started'')])
   \<and> JavaServer_stop unstarted_os None
       \<lparr>js_stop_event = False, js_proc = Some 1, js_thread = Some 2\<rparr>
     = Raises RuntimeError
         (\<lparr>js_stop_event = True, js_proc = Some 1, js_thread = Some 2\<rparr>,
          [Log (lit ''Stopping Java server '' @ [8230]),
           Log (lit ''Terminating JVM '' @ [8230]), Terminate 1,
           Log (lit ''JVM exited gracefully'')])
   \<and> ProxyServer_stop unstarted_os None
       \<lparr>px_version = lit ''1.16.0'', px_stop_event = False, px_proc = Some 4, px_thread = Some 5\<rparr>
     = Raises RuntimeError
         (\<lparr>px_version = lit ''1.16.0'', px_stop_event = True, px_proc = Some 4,
           px_thread = Some 5\<rparr>,
          [Log (lit ''Stopping Proxy server '' @ [8230]),
           Log (lit ''Terminating JVM '' @ [8230]), Terminate 4,
           Log (lit ''JVM exited gracefully'')])
   \<and> \<not> poll_is_none idle_os 1 \<and> join idle_os 2 None = Joined
   \<and> \<not> poll_is_none idle_os 4 \<and> join idle_os 5 None = Joined
   \<and> (\<exists>evs. JavaServer_stop idle_os None
               \<lparr>js_stop_event = False, js_proc = Some 1, js_thread = Some 2\<rparr>
             = Returns (\<lparr>js_stop_event = False, js_proc = None, js_thread = None\<rparr>, evs))
   \<and> (\<exists>evs. ProxyServer_stop idle_os None
               \<lparr>px_version = lit ''1.16.0'', px_stop_event = False, px_proc = Some 4,
                 px_thread = Some 5\<rparr>
             = Returns (\<lparr>px_version = lit ''1.16.0'', px_stop_event = False, px_proc = None,
                         px_thread = None\<rparr>, evs))"
proof -
  let ?j = "\<lparr>js_stop_event = False, js_proc = Some 1, js_thread = Some 2\<rparr>"
  let ?j' = "\<lparr>js_stop_event = False, js_proc = None, js_thread = None\<rparr>"
  let ?je = "[Log (lit ''Stopping Java server '' @ [8230]),
                 Log (lit ''Terminating JVM '' @ [8230]), Terminate 1,
                 Log (lit ''JVM exited gracefully''), Join 2,
                 Log (lit ''Thread finished cleanly'')]"
  let ?jr = "[Log (lit ''Stopping Java server '' @ [8230]),
                 Log (lit ''Terminating JVM '' @ [8230]), Terminate 1,
                 Log (lit ''JVM exited gracefully'')]"
  let ?p = "\<lparr>px_version = lit ''1.16.0'', px_stop_event = False, px_proc = Some 4,
             px_thread = Some 5\<rparr>"
  let ?p' = "\<lparr>px_version = lit ''1.16.0'', px_stop_event = False, px_proc = None,
              px_thread = None\<rparr>"
  let ?pe = "[Log (lit ''Stopping Proxy server '' @ [8230]),
                 Log (lit ''Terminating JVM '' @ [8230]), Terminate 4,
                 Log (lit ''JVM exited gracefully''), Join 5,
                 Log (lit ''Thread finished cleanly'')]"
  let ?pr = "[Log (lit ''Stopping Proxy server '' @ [8230]),
                 Log (lit ''Terminating JVM '' @ [8230]), Terminate 4,
                 Log (lit ''JVM exited gracefully'')]"
  have j: "JavaServer_stop sample_os None ?j = Returns (?j', ?je)"
    by (simp add: JavaServer_stop_def stop_process_def join_thread_def sample_os_def)
  have p: "ProxyServer_stop sample_os None ?p = Returns (?p', ?pe)"
    by (simp add: ProxyServer_stop_def stop_process_def join_thread_def sample_os_def)
  have e: "start_error sample_os 3 = None" by (simp add: sample_os_def)
  have first: "JavaServer_stop sample_os None ?j' = Returns (?j', [Log (lit ''Stopping Java server '' @ [8230])])
      \<and> JavaServer_start sample_os 3 ?j'
          = Returns (?j'\<lparr>js_thread := Some 3\<rparr>,
                     [StartThread 3, Log (lit ''JavaServer thread started'')])
      \<and> ProxyServer_stop sample_os None ?p'
          = Returns (?p', [Log (lit ''Stopping Proxy server '' @ [8230])])
      \<and> ProxyServer_start sample_os 3 ?p'
          = Returns (?p'\<lparr>px_thread := Some 3\<rparr>,
                     [StartThread 3, Log (lit ''ProxyServer thread started'')])"
    using stop_idempotent[where env = sample_os and timeout = None and self = ?j
      and self' = ?j' and evs = ?je and pself = ?p and pself' = ?p' and pevs = ?pe
      and env' = sample_os and timeout' = None and fresh = 3] j p e
    by simp
  have jr: "JavaServer_stop unstarted_os None ?j = Raises RuntimeError (?j\<lparr>js_stop_event := True\<rparr>, ?jr)"
    by (simp add: JavaServer_stop_def stop_process_def join_thread_def unstarted_os_def
        sample_os_def)
  have pr: "ProxyServer_stop unstarted_os None ?p = Raises RuntimeError (?p\<lparr>px_stop_event := True\<rparr>, ?pr)"
    by (simp add: ProxyServer_stop_def stop_process_def join_thread_def unstarted_os_def
        sample_os_def)
  have second: "?j\<lparr>js_stop_event := True\<rparr> = ?j\<lparr>js_stop_event := True\<rparr>
      \<and> ?p\<lparr>px_stop_event := True\<rparr> = ?p\<lparr>px_stop_event := True\<rparr>"
    using stop_idempotent[where env = unstarted_os and timeout = None and self = ?j
      and self' = "?j\<lparr>js_stop_event := True\<rparr>" and evs = ?jr and pself = ?p
      and pself' = "?p\<lparr>px_stop_event := True\<rparr>" and pevs = ?pr and e = RuntimeError] jr pr
    by simp
  have d: "\<not> poll_is_none idle_os 1 \<and> join idle_os 2 None = Joined
         \<and> \<not> poll_is_none idle_os 4 \<and> join idle_os 5 None = Joined"
    by (simp add: idle_os_def sample_os_def)
  have third: "(\<exists>evs. JavaServer_stop idle_os None ?j = Returns (?j', evs))
      \<and> (\<exists>evs. ProxyServer_stop idle_os None ?p = Returns (?p', evs))"
    using stop_idempotent[where env = idle_os and timeout = None and self = ?j and pself = ?p] d
    by simp
  show ?thesis using j p first jr pr d third by simp
qed

theorem stop_raises_counterexample:
  "JavaServer_start unstarted_os 2 \<lparr>js_stop_event = False, js_proc = None, js_thread = None\<rparr>
     = Raises RuntimeError (\<lparr>js_stop_event = False, js_proc = None, js_thread = Some 2\<rparr>, [])
   \<and> JavaServer_stop unstarted_os None
       \<lparr>js_stop_event = False, js_proc = None, js_thread = Some 2\<rparr>
     = Raises RuntimeError
         (\<lparr>js_stop_event = True, js_proc = None, js_thread = Some 2\<rparr>,
          [Log (lit ''Stopping Java server '' @ [8230])])
   \<and> ProxyServer_stop unstarted_os None
       \<lparr>px_version = lit ''1.16.0'', px_stop_event = False, px_proc = None, px_thread = Some 2\<rparr>
     = Raises RuntimeError
         (\<lparr>px_version = lit ''1.16.0'', px_stop_event = True, px_proc = None,
           px_thread = Some 2\<rparr>,
          [Log (lit ''Stopping Proxy server '' @ [8230])])"
  by (simp add: JavaServer_start_def JavaServer_stop_def ProxyServer_stop_def thread_running_def
      stop_process_def join_thread_def unstarted_os_def sample_os_def)

section \<open>Properties of the line replacement\<close>



















end
